theory Spec2Isabelle
  imports Main
begin

section \<open>Python values, strings and exceptions used by the driver\<close>

text \<open>
  The driver \<^verbatim>\<open>PTWUnidos.py\<close> talks to an electrometer through a request/reply serial
  link.  Every exception the code can raise is a value here: a failed \<^verbatim>\<open>assert\<close>
  (with its message), an index out of range, a failed conversion (\<^verbatim>\<open>int\<close>,
  \<^verbatim>\<open>float\<close>, \<^verbatim>\<open>list.index\<close>, a negative \<^verbatim>\<open>time.sleep\<close>), a local variable read
  before assignment, and an error raised by the serial library.
\<close>

datatype error =
    AssertionError string
  | IndexError
  | ValueError
  | UnboundLocalError
  | TransportError

text \<open>
  An argument handed to a method by the caller.  Python does not enforce the \<^verbatim>\<open>int\<close>
  annotation, and \<^verbatim>\<open>setIntegrationTime\<close> inspects the run-time type, so the model keeps
  the distinction between an \<^verbatim>\<open>int\<close>, a \<^verbatim>\<open>bool\<close> (a subclass of \<^verbatim>\<open>int\<close> whose
  \<^verbatim>\<open>type\<close> is not \<^verbatim>\<open>int\<close>) and any other object, which is represented by the text
  that \<^verbatim>\<open>str\<close> gives for it.
\<close>

datatype pyval = PyInt int | PyBool bool | PyOther string

definition digit_char :: "nat \<Rightarrow> char" where
  "digit_char n = ''0123456789'' ! (n mod 10)"

definition digit_val :: "char \<Rightarrow> nat option" where
  "digit_val c =
     map_of [(CHR ''0'', 0), (CHR ''1'', 1), (CHR ''2'', 2), (CHR ''3'', 3), (CHR ''4'', 4),
             (CHR ''5'', 5), (CHR ''6'', 6), (CHR ''7'', 7), (CHR ''8'', 8), (CHR ''9'', 9)] c"

text \<open>\<^verbatim>\<open>str(n)\<close> for an integer: decimal digits, with a minus sign when negative.\<close>

fun dec_digits :: "nat \<Rightarrow> string" where
  "dec_digits n =
     (if n < 10 then [digit_char n] else dec_digits (n div 10) @ [digit_char (n mod 10)])"

declare dec_digits.simps [simp del]

definition str_int :: "int \<Rightarrow> string" where
  "str_int n = (if n < 0 then CHR ''-'' # dec_digits (nat (- n)) else dec_digits (nat n))"

definition str_pyval :: "pyval \<Rightarrow> string" where
  "str_pyval v =
     (case v of PyInt n \<Rightarrow> str_int n
      | PyBool b \<Rightarrow> (if b then ''True'' else ''False'')
      | PyOther s \<Rightarrow> s)"

text \<open>\<^verbatim>\<open>s.zfill(width)\<close>: pad with zeros on the left, after a leading sign if there is one.\<close>

definition zfill :: "nat \<Rightarrow> string \<Rightarrow> string" where
  "zfill width s =
     (if width \<le> length s then s
      else (case s of
              c # cs \<Rightarrow>
                (if c = CHR ''+'' \<or> c = CHR ''-''
                 then c # replicate (width - length s) CHR ''0'' @ cs
                 else replicate (width - length s) CHR ''0'' @ s)
            | [] \<Rightarrow> replicate width CHR ''0''))"

text \<open>
  The format specification \<^verbatim>\<open>08b\<close>: binary digits, zero-filled after the sign up to
  a minimum total width of eight characters.  A width is a minimum, never a maximum.
\<close>

fun bin_digits :: "nat \<Rightarrow> string" where
  "bin_digits n =
     (if n < 2 then [digit_char n] else bin_digits (n div 2) @ [digit_char (n mod 2)])"

declare bin_digits.simps [simp del]

definition format_08b :: "int \<Rightarrow> string" where
  "format_08b n =
     (if n < 0
      then CHR ''-'' # replicate (7 - length (bin_digits (nat (- n)))) CHR ''0''
             @ bin_digits (nat (- n))
      else replicate (8 - length (bin_digits (nat n))) CHR ''0'' @ bin_digits (nat n))"

text \<open>
  The characters \<^verbatim>\<open>str.split()\<close> treats as white space (code points below 256):
  those for which \<^verbatim>\<open>str.isspace\<close> holds.
\<close>

definition py_isspace :: "char \<Rightarrow> bool" where
  "py_isspace c \<longleftrightarrow>
     c \<in> set [CHR 0x09, CHR 0x0A, CHR 0x0B, CHR 0x0C, CHR 0x0D, CHR 0x1C, CHR 0x1D,
              CHR 0x1E, CHR 0x1F, CHR 0x20, CHR 0x85, CHR 0xA0]"

text \<open>
  The characters \<^verbatim>\<open>int\<close> drops around a literal: tab, line feed, vertical tab,
  form feed, carriage return and space, and the two white-space characters above 127.
  The separators \<^verbatim>\<open>0x1C\<close> to \<^verbatim>\<open>0x1F\<close> are white space for \<^verbatim>\<open>split\<close> but
  not for \<^verbatim>\<open>int\<close>, which refuses a literal that has one.
\<close>

definition int_isspace :: "char \<Rightarrow> bool" where
  "int_isspace c \<longleftrightarrow>
     c \<in> set [CHR 0x09, CHR 0x0A, CHR 0x0B, CHR 0x0C, CHR 0x0D, CHR 0x20, CHR 0x85, CHR 0xA0]"

definition int_strip :: "string \<Rightarrow> string" where
  "int_strip s = rev (dropWhile int_isspace (rev (dropWhile int_isspace s)))"

text \<open>\<^verbatim>\<open>s.split(sep)\<close> for a one-character separator: always at least one field.\<close>

fun split_on :: "char \<Rightarrow> string \<Rightarrow> string list" where
  "split_on sep [] = [[]]"
| "split_on sep (x # xs) =
     (if x = sep then [] # split_on sep xs
      else (case split_on sep xs of
              w # ws \<Rightarrow> (x # w) # ws
            | [] \<Rightarrow> [[x]]))"

text \<open>\<^verbatim>\<open>s.split()\<close>: the maximal runs of characters that are not white space.\<close>

fun split_ws_from :: "string \<Rightarrow> string \<Rightarrow> string list" where
  "split_ws_from cur [] = (if cur = [] then [] else [cur])"
| "split_ws_from cur (x # xs) =
     (if py_isspace x
      then (if cur = [] then split_ws_from [] xs else cur # split_ws_from [] xs)
      else split_ws_from (cur @ [x]) xs)"

definition py_split :: "string \<Rightarrow> string list" where
  "py_split s = split_ws_from [] s"

text \<open>
  \<^verbatim>\<open>int(s)\<close> in base ten: white space around the literal is dropped, one sign may lead,
  and single underscores may stand between digits.  Anything else is a
  \<^verbatim>\<open>ValueError\<close>.  (The interpreter's optional cap on the number of digits is an
  interpreter setting and is not part of the model.)
\<close>

definition dec_value :: "string \<Rightarrow> nat option" where
  "dec_value s =
     (let groups = split_on CHR ''_'' s in
      if (\<forall>g \<in> set groups. g \<noteq> [] \<and> (\<forall>c \<in> set g. digit_val c \<noteq> None))
      then Some (foldl (\<lambda>n c. 10 * n + the (digit_val c)) 0 (concat groups))
      else None)"

definition py_int :: "string \<Rightarrow> error + int" where
  "py_int s =
     (case int_strip s of
        [] \<Rightarrow> Inl ValueError
      | c # cs \<Rightarrow>
          (if c = CHR ''-''
           then (case dec_value cs of None \<Rightarrow> Inl ValueError | Some n \<Rightarrow> Inr (- int n))
           else if c = CHR ''+''
           then (case dec_value cs of None \<Rightarrow> Inl ValueError | Some n \<Rightarrow> Inr (int n))
           else (case dec_value (c # cs) of None \<Rightarrow> Inl ValueError | Some n \<Rightarrow> Inr (int n))))"

text \<open>Indexing \<^verbatim>\<open>xs[i]\<close>: a negative index counts from the end, out of range raises.\<close>

definition py_nth :: "'a list \<Rightarrow> int \<Rightarrow> error + 'a" where
  "py_nth xs i =
     (if 0 \<le> i \<and> i < int (length xs) then Inr (xs ! nat i)
      else if i < 0 \<and> - i \<le> int (length xs) then Inr (xs ! nat (int (length xs) + i))
      else Inl IndexError)"

text \<open>Indexing a string gives a string of one character.\<close>

definition py_char_at :: "string \<Rightarrow> int \<Rightarrow> error + string" where
  "py_char_at s i = (case py_nth s i of Inl e \<Rightarrow> Inl e | Inr c \<Rightarrow> Inr [c])"

text \<open>\<^verbatim>\<open>xs.index(v)\<close>: the first position of \<open>v\<close>, or a \<^verbatim>\<open>ValueError\<close>.\<close>

fun index_of :: "'a list \<Rightarrow> 'a \<Rightarrow> error + nat" where
  "index_of [] v = Inl ValueError"
| "index_of (x # xs) v =
     (if x = v then Inr 0
      else (case index_of xs v of Inl e \<Rightarrow> Inl e | Inr i \<Rightarrow> Inr (Suc i)))"


section \<open>The serial link and the session\<close>

text \<open>
  The serial library (\<^verbatim>\<open>pyvisa\<close>) and the instrument behind it are outside the
  repository: they are a parameter of the model.  The environment has a state of any
  type \<open>'d\<close>; \<^verbatim>\<open>serial.query\<close> writes one line and reads one line back, and gives
  \<open>None\<close> when the library raises (a read that times out, a closed session).
  \<^verbatim>\<open>serial.write\<close> and \<^verbatim>\<open>serial.read_raw\<close> are the two halves used on their own by
  \<^verbatim>\<open>integrate\<close>.
\<close>

record 'd transport =
  serial_query :: "'d \<Rightarrow> string \<Rightarrow> string option \<times> 'd"
  serial_write :: "'d \<Rightarrow> string \<Rightarrow> bool \<times> 'd"
  serial_read_raw :: "'d \<Rightarrow> string option \<times> 'd"

text \<open>What went over the link, in order.\<close>

datatype exchange =
    Query string "string option"
  | Write string
  | ReadRaw "string option"

fun command_of :: "exchange \<Rightarrow> string list" where
  "command_of (Query c r) = [c]"
| "command_of (Write c) = [c]"
| "command_of (ReadRaw r) = []"

text \<open>
  The state a method runs in: the environment, the exchanges so far, the lines printed
  on the console, the pauses taken with \<^verbatim>\<open>time.sleep\<close>, and whether
  \<^verbatim>\<open>serial.close()\<close> has been called.
\<close>

record 'd session =
  dev :: 'd
  exch :: "exchange list"
  printed :: "string list"
  slept :: "int list"
  closed :: bool

definition sent :: "'d session \<Rightarrow> string list" where
  "sent s = concat (map command_of (exch s))"

text \<open>
  A method is a function from the session to an outcome and the session it leaves
  behind; the session survives an exception.  \<open>None\<close> stands for a run that never
  returns (the two \<^verbatim>\<open>while\<close> loops have no bound).
\<close>

type_synonym ('a, 'd) prog = "'d session \<Rightarrow> ((error + 'a) \<times> 'd session) option"

definition pret :: "'a \<Rightarrow> ('a, 'd) prog" where
  "pret a s = Some (Inr a, s)"

definition praise :: "error \<Rightarrow> ('a, 'd) prog" where
  "praise e s = Some (Inl e, s)"

definition pbind :: "('a, 'd) prog \<Rightarrow> ('a \<Rightarrow> ('b, 'd) prog) \<Rightarrow> ('b, 'd) prog" where
  "pbind m f s =
     (case m s of
        None \<Rightarrow> None
      | Some (Inl e, s') \<Rightarrow> Some (Inl e, s')
      | Some (Inr a, s') \<Rightarrow> f a s')"

definition plift :: "error + 'a \<Rightarrow> ('a, 'd) prog" where
  "plift r = (case r of Inl e \<Rightarrow> praise e | Inr a \<Rightarrow> pret a)"

definition pprint :: "string \<Rightarrow> (unit, 'd) prog" where
  "pprint line s = Some (Inr (), s\<lparr>printed := printed s @ [line]\<rparr>)"

text \<open>\<^verbatim>\<open>time.sleep(t)\<close>: a negative pause is a \<^verbatim>\<open>ValueError\<close>.\<close>

definition sleep :: "int \<Rightarrow> (unit, 'd) prog" where
  "sleep secs s =
     (if secs < 0 then Some (Inl ValueError, s)
      else Some (Inr (), s\<lparr>slept := slept s @ [secs]\<rparr>))"

definition serialWrite :: "'d transport \<Rightarrow> string \<Rightarrow> (unit, 'd) prog" where
  "serialWrite t c s =
     (case serial_write t (dev s) c of
        (ok, d') \<Rightarrow>
          Some (if ok then Inr () else Inl TransportError,
                s\<lparr>dev := d', exch := exch s @ [Write c]\<rparr>))"

definition serialReadRaw :: "'d transport \<Rightarrow> (string, 'd) prog" where
  "serialReadRaw t s =
     (case serial_read_raw t (dev s) of
        (None, d') \<Rightarrow> Some (Inl TransportError, s\<lparr>dev := d', exch := exch s @ [ReadRaw None]\<rparr>)
      | (Some raw, d') \<Rightarrow>
          Some (Inr raw, s\<lparr>dev := d', exch := exch s @ [ReadRaw (Some raw)]\<rparr>))"


section \<open>The driver\<close>

text \<open>\<^verbatim>\<open>self.__listOfVoltages\<close>, set once by the constructor and never changed.\<close>

definition listOfVoltages :: "int list" where
  "listOfVoltages = [0, 50, 100, 150, 200, 250, 300, 350, 400]"

text \<open>
  \<^verbatim>\<open>_sendCommand(command, crossCheck = True)\<close>: one query; a reply that differs from
  the command is reported on the console when \<open>crossCheck\<close> is set, and returned
  all the same.
\<close>

definition sendCommand :: "'d transport \<Rightarrow> string \<Rightarrow> bool \<Rightarrow> (string, 'd) prog" where
  "sendCommand t command crossCheck s =
     (case serial_query t (dev s) command of
        (None, d') \<Rightarrow>
          Some (Inl TransportError, s\<lparr>dev := d', exch := exch s @ [Query command None]\<rparr>)
      | (Some response, d') \<Rightarrow>
          Some (Inr response,
                s\<lparr>dev := d',
                  exch := exch s @ [Query command (Some response)],
                  printed := (if response \<noteq> command \<and> crossCheck
                              then printed s @ [''Error sending command: '' @ command]
                              else printed s)\<rparr>))"

definition getFlags :: "'d transport \<Rightarrow> (string, 'd) prog" where
  "getFlags t =
     pbind (sendCommand t ''?F'' False) (\<lambda>reply.
     pbind (plift (py_int reply)) (\<lambda>response.
     pret (format_08b response)))"

definition getPosition :: "'d transport \<Rightarrow> (string, 'd) prog" where
  "getPosition t = sendCommand t ''?W'' False"

definition getStatus :: "'d transport \<Rightarrow> (string, 'd) prog" where
  "getStatus t = sendCommand t ''?S'' False"

text \<open>
  The body of the loop of \<^verbatim>\<open>goToSetupPosition\<close> for the position \<open>r\<close>: the
  \<^verbatim>\<open>if\<close>/\<^verbatim>\<open>elif\<close> chain, then the position is asked again.  \<^verbatim>\<open>r[0]\<close> and
  \<^verbatim>\<open>r[1]\<close> raise on a position that is too short.
\<close>

definition seekMove :: "'d transport \<Rightarrow> string \<Rightarrow> (unit, 'd) prog" where
  "seekMove t r =
     (if length r > 2 then pbind (sendCommand t ''C'' True) (\<lambda>_. pret ())
      else pbind (plift (py_char_at r 0)) (\<lambda>r0.
        if r0 \<noteq> ''0'' then pbind (sendCommand t ''M0'' True) (\<lambda>_. pret ())
        else pbind (plift (py_char_at r 1)) (\<lambda>r1.
          if r1 \<noteq> ''0'' then pbind (sendCommand t ''U'' True) (\<lambda>_. pret ())
          else pret ())))"

definition seekStep :: "'d transport \<Rightarrow> string \<Rightarrow> (string, 'd) prog" where
  "seekStep t r = pbind (seekMove t r) (\<lambda>_. getPosition t)"

partial_function (option) seekLoop ::
  "'d transport \<Rightarrow> string \<Rightarrow> 'd session \<Rightarrow> ((error + unit) \<times> 'd session) option"
where
  "seekLoop t r s =
     (if r = ''00'' then Some (Inr (), s)
      else (case seekStep t r s of
              None \<Rightarrow> None
            | Some (Inl e, s') \<Rightarrow> Some (Inl e, s')
            | Some (Inr r', s') \<Rightarrow> seekLoop t r' s'))"

declare seekLoop.simps [code]

definition goToSetupPosition :: "'d transport \<Rightarrow> (unit, 'd) prog" where
  "goToSetupPosition t = pbind (getPosition t) (seekLoop t)"

text \<open>
  \<^verbatim>\<open>setRange(range)\<close>.  The three \<^verbatim>\<open>if\<close> statements assign \<open>x\<close>; it stays
  unbound when none of them fires.
\<close>

definition setRange :: "'d transport \<Rightarrow> string \<Rightarrow> (unit, 'd) prog" where
  "setRange t rng =
     (if rng \<notin> set [''Low'', ''Medium'', ''High'']
      then praise (AssertionError ''Range not recognised'')
      else
        (let x0 = (None :: int option);
             x1 = (if rng = ''Low'' \<or> rng = ''low'' then Some 0 else x0);
             x2 = (if rng = ''Medium'' \<or> rng = ''medium'' then Some 1 else x1);
             x3 = (if rng = ''High'' \<or> rng = ''high'' then Some 2 else x2)
         in (case x3 of
               None \<Rightarrow> praise UnboundLocalError
             | Some x \<Rightarrow> pbind (sendCommand t (''R'' @ str_int x) True) (\<lambda>_. pret ()))))"

definition getVoltage :: "'d transport \<Rightarrow> bool \<Rightarrow> (int, 'd) prog" where
  "getVoltage t goToSetup =
     pbind (goToSetupPosition t) (\<lambda>_.
     pbind (sendCommand t ''D'' True) (\<lambda>_.
     pbind (sendCommand t ''E'' True) (\<lambda>_.
     pbind (sendCommand t ''D'' True) (\<lambda>_.
     pbind (sendCommand t ''E'' True) (\<lambda>_.
     pbind (sendCommand t ''V'' False) (\<lambda>aValue.
     pbind (if goToSetup then goToSetupPosition t else pret ()) (\<lambda>_.
     pbind (plift (py_nth (py_split aValue) 0)) (\<lambda>token.
     plift (py_int token)))))))))"

text \<open>The list comprehension \<^verbatim>\<open>[self._sendCommand(c) for i in range(n)]\<close>.\<close>

fun sendRepeated :: "'d transport \<Rightarrow> string \<Rightarrow> nat \<Rightarrow> (string list, 'd) prog" where
  "sendRepeated t c 0 = pret []"
| "sendRepeated t c (Suc n) =
     pbind (sendCommand t c True) (\<lambda>r.
     pbind (sendRepeated t c n) (\<lambda>rs.
     pret (r # rs)))"

text \<open>
  The end of \<^verbatim>\<open>setVoltage\<close>, from the check of the new value on.  The value is
  read again with \<^verbatim>\<open>V\<close>; then (\<open>checkVoltage\<close>) the first token of the reply is
  read as an integer, a mismatch is reported, a match is confirmed with \<^verbatim>\<open>E\<close> (and
  \<^verbatim>\<open>G\<close> when \<^verbatim>\<open>E\<close> is not echoed), and the cursor is taken to the setup
  position.  A reply without a token, or whose first token is not an integer, raises
  before the comparison.
\<close>

definition checkVoltage :: "'d transport \<Rightarrow> int \<Rightarrow> string \<Rightarrow> (unit, 'd) prog" where
  "checkVoltage t voltage reply =
     pbind (plift (py_nth (py_split reply) 0)) (\<lambda>token.
     pbind (plift (py_int token)) (\<lambda>readBack.
     pbind (if voltage \<noteq> readBack
            then pprint ''Error setting the requested voltage, operation aborted.''
            else pbind (sendCommand t ''E'' False) (\<lambda>response.
                   if response \<noteq> ''E''
                   then pbind (sendCommand t ''G'' False) (\<lambda>_. pret ())
                   else pret ())) (\<lambda>_.
     goToSetupPosition t)))"

definition verifyVoltage :: "'d transport \<Rightarrow> int \<Rightarrow> (unit, 'd) prog" where
  "verifyVoltage t voltage = pbind (sendCommand t ''V'' False) (checkVoltage t voltage)"

text \<open>
  The two stepping lines of \<^verbatim>\<open>setVoltage\<close>: \<open>move\<close> presses of \<^verbatim>\<open>U\<close> when it
  is positive, \<open>- move\<close> presses of \<^verbatim>\<open>D\<close> when it is negative.
\<close>

definition stepVoltage :: "'d transport \<Rightarrow> int \<Rightarrow> (unit, 'd) prog" where
  "stepVoltage t move =
     pbind (if move > 0
            then pbind (sendRepeated t ''U'' (nat move)) (\<lambda>_. pret ())
            else pret ()) (\<lambda>_.
     (if move < 0
      then pbind (sendRepeated t ''D'' (nat (- move))) (\<lambda>_. pret ())
      else pret ()))"

definition setVoltage :: "'d transport \<Rightarrow> int \<Rightarrow> (unit, 'd) prog" where
  "setVoltage t voltage =
     (if voltage \<notin> set listOfVoltages
      then praise (AssertionError (str_int voltage @ '' V is not a valid value of voltage''))
      else
        pbind (getVoltage t False) (\<lambda>aVoltage.
        pbind (plift (index_of listOfVoltages aVoltage)) (\<lambda>currentVoltageIndex.
        pbind (plift (index_of listOfVoltages voltage)) (\<lambda>newVoltageIndex.
        (let move = int newVoltageIndex - int currentVoltageIndex in
         pbind (stepVoltage t move) (\<lambda>_.
         verifyVoltage t voltage))))))"

definition getIntegrationTime :: "'d transport \<Rightarrow> bool \<Rightarrow> (int, 'd) prog" where
  "getIntegrationTime t goToSetup =
     pbind (goToSetupPosition t) (\<lambda>_.
     pbind (sendCommand t ''E'' True) (\<lambda>_.
     pbind (sendCommand t ''E'' True) (\<lambda>_.
     pbind (sendCommand t ''V'' False) (\<lambda>aValue.
     pbind (if goToSetup then goToSetupPosition t else pret ()) (\<lambda>_.
     plift (py_int aValue))))))"

text \<open>
  \<^verbatim>\<open>setIntegrationTime(integrationTime)\<close>.  The assertion is
  \<^verbatim>\<open>type(integrationTime) is int and integrationTime >= 6 and integrationTime <= 9999\<close>;
  \<^verbatim>\<open>and\<close> stops at the first false operand, so the comparisons are only made on an
  \<^verbatim>\<open>int\<close>.
\<close>

definition validIntegrationTime :: "pyval \<Rightarrow> bool" where
  "validIntegrationTime v =
     (case v of PyInt n \<Rightarrow> 6 \<le> n \<and> n \<le> 9999 | PyBool b \<Rightarrow> False | PyOther x \<Rightarrow> False)"

definition setIntegrationTime :: "'d transport \<Rightarrow> pyval \<Rightarrow> (unit, 'd) prog" where
  "setIntegrationTime t integrationTime =
     (if \<not> validIntegrationTime integrationTime
      then praise (AssertionError
             (str_pyval integrationTime @ '' s is not a valid value of integration time''))
      else
        pbind (goToSetupPosition t) (\<lambda>_.
        pbind (sendCommand t ''E'' True) (\<lambda>_.
        pbind (sendCommand t ''E'' True) (\<lambda>_.
        pbind (sendCommand t (zfill 4 (str_pyval integrationTime)) True) (\<lambda>_.
        pbind (sendCommand t ''E'' True) (\<lambda>_.
        pbind (sendCommand t ''V'' False) (\<lambda>reply.
        pbind (plift (py_int reply)) (\<lambda>readBack.
        if integrationTime \<noteq> PyInt readBack
        then pprint ''Error setting the integration time, operation aborted.''
        else pret ()))))))))"

text \<open>The loop \<^verbatim>\<open>while self.getStatus() == "INT": time.sleep(1)\<close>.\<close>

partial_function (option) waitWhileIntegrating ::
  "'d transport \<Rightarrow> 'd session \<Rightarrow> ((error + unit) \<times> 'd session) option"
where
  "waitWhileIntegrating t s =
     (case getStatus t s of
        None \<Rightarrow> None
      | Some (Inl e, s') \<Rightarrow> Some (Inl e, s')
      | Some (Inr status, s') \<Rightarrow>
          (if status = ''INT''
           then (case sleep 1 s' of
                   None \<Rightarrow> None
                 | Some (Inl e, s'') \<Rightarrow> Some (Inl e, s'')
                 | Some (Inr u, s'') \<Rightarrow> waitWhileIntegrating t s'')
           else Some (Inr (), s')))"

declare waitWhileIntegrating.simps [code]

text \<open>
  \<^verbatim>\<open>integrate()\<close>, after its first three lines: the integration time is read, the
  integration started and waited for, and the result line fetched and taken apart.
  \<^verbatim>\<open>float\<close> is a parameter: floating point is not part of the model.
\<close>

definition integrateFromSetup ::
  "'d transport \<Rightarrow> (string \<Rightarrow> error + 'f) \<Rightarrow> ('f, 'd) prog" where
  "integrateFromSetup t py_float =
     pbind (getIntegrationTime t True) (\<lambda>integrationTime.
     pbind (sendCommand t ''I'' True) (\<lambda>_.
     pbind (sleep (integrationTime + 1)) (\<lambda>_.
     pbind (waitWhileIntegrating t) (\<lambda>_.
     pbind (serialWrite t ''V'') (\<lambda>_.
     pbind (serialReadRaw t) (\<lambda>raw.
     (let results = split_on CHR '' '' raw;
          validResults = filter (\<lambda>v. length v > 1) results in
      pbind (plift (py_nth validResults 0)) (\<lambda>first.
      pbind (plift (py_int (butlast first))) (\<lambda>iTime.
      pbind (if iTime \<noteq> integrationTime then pprint ''Integration time missmatch''
             else pret ()) (\<lambda>_.
      pbind (plift (py_nth validResults 1)) (\<lambda>second.
      plift (py_float second))))))))))))"

text \<open>
  \<^verbatim>\<open>integrate()\<close>.  Its guard is \<^verbatim>\<open>self.getPosition()[0] != "00"\<close>: the first
  character of the position, as a string, against the two-character string.
\<close>

definition integrate :: "'d transport \<Rightarrow> (string \<Rightarrow> error + 'f) \<Rightarrow> ('f, 'd) prog" where
  "integrate t py_float =
     pbind (getPosition t) (\<lambda>position.
     pbind (plift (py_char_at position 0)) (\<lambda>first.
     pbind (if first \<noteq> ''00'' then goToSetupPosition t else pret ()) (\<lambda>_.
     integrateFromSetup t py_float)))"

text \<open>\<^verbatim>\<open>close()\<close>: two statements, one after the other.\<close>

definition serialClose :: "(unit, 'd) prog" where
  "serialClose s = Some (Inr (), s\<lparr>closed := True\<rparr>)"

definition close :: "'d transport \<Rightarrow> (unit, 'd) prog" where
  "close t = pbind (sendCommand t ''T1'' True) (\<lambda>_. serialClose)"


section \<open>Simulated instruments\<close>

text \<open>A session that has not exchanged anything yet, on the environment \<open>d\<close>.\<close>

definition start :: "'d \<Rightarrow> 'd session" where
  "start d = \<lparr>dev = d, exch = [], printed = [], slept = [], closed = False\<rparr>"

text \<open>
  A scripted instrument: its state is the list of the replies still to come, given out
  one per query or raw read whatever is asked; when the list is used up the read times
  out.
\<close>

definition scripted :: "string list transport" where
  "scripted =
     \<lparr>serial_query = (\<lambda>d c. case d of [] \<Rightarrow> (None, []) | r # rs \<Rightarrow> (Some r, rs)),
      serial_write = (\<lambda>d c. (True, d)),
      serial_read_raw = (\<lambda>d. case d of [] \<Rightarrow> (None, []) | r # rs \<Rightarrow> (Some r, rs))\<rparr>"

text \<open>
  A scripted instrument that never falls silent: it gives out the replies of its list
  one per query, and once the list is used up it echoes every command.
\<close>

definition scriptedThenEcho :: "string list transport" where
  "scriptedThenEcho =
     \<lparr>serial_query = (\<lambda>d c. case d of [] \<Rightarrow> (Some c, []) | r # rs \<Rightarrow> (Some r, rs)),
      serial_write = (\<lambda>d c. (True, d)),
      serial_read_raw = (\<lambda>d. case d of [] \<Rightarrow> (Some [], []) | r # rs \<Rightarrow> (Some r, rs))\<rparr>"

text \<open>
  Modelled from the spec: the simulated instrument of the property test of the
  root-seeking procedure, which is not in the repository: an instrument whose state is
  the position code of its cursor and which moves one level for each command.  The
  first character of the code is the top-level branch, the following ones the row at
  each depth.  \<^verbatim>\<open>?W\<close> reports the code; every other command is echoed.  \<^verbatim>\<open>C\<close>
  leaves the innermost level, \<^verbatim>\<open>E\<close> enters a level at its first row, \<^verbatim>\<open>M0\<close>
  selects top-level branch zero, \<^verbatim>\<open>U\<close> moves one row up (towards zero) and
  \<^verbatim>\<open>D\<close> one row down.
\<close>

definition rowUp :: "char \<Rightarrow> char" where
  "rowUp c = (case digit_val c of Some (Suc n) \<Rightarrow> digit_char n | _ \<Rightarrow> c)"

definition rowDown :: "char \<Rightarrow> char" where
  "rowDown c = (case digit_val c of Some n \<Rightarrow> (if n < 9 then digit_char (Suc n) else c) | None \<Rightarrow> c)"

definition menuMove :: "string \<Rightarrow> string \<Rightarrow> string" where
  "menuMove pos c =
     (if c = ''C'' then (if length pos > 2 then butlast pos else pos)
      else if c = ''E'' then pos @ ''0''
      else if c = ''M0'' then (case pos of [] \<Rightarrow> [] | b # rows \<Rightarrow> CHR ''0'' # rows)
      else if c = ''U'' then (if length pos < 2 then pos else butlast pos @ [rowUp (last pos)])
      else if c = ''D'' then (if length pos < 2 then pos else butlast pos @ [rowDown (last pos)])
      else pos)"

definition menuDevice :: "string transport" where
  "menuDevice =
     \<lparr>serial_query = (\<lambda>pos c. if c = ''?W'' then (Some pos, pos) else (Some c, menuMove pos c)),
      serial_write = (\<lambda>pos c. (True, menuMove pos c)),
      serial_read_raw = (\<lambda>pos. (None, pos))\<rparr>"

text \<open>The position codes of the simulated instrument: at least two characters, all digits.\<close>

definition wellFormedPosition :: "string \<Rightarrow> bool" where
  "wellFormedPosition pos \<longleftrightarrow> 2 \<le> length pos \<and> (\<forall>c \<in> set pos. digit_val c \<noteq> None)"

text \<open>The positions the cursor of the simulated instrument can be brought to from the root.\<close>

inductive reachablePosition :: "string \<Rightarrow> bool" where
  root: "reachablePosition ''00''"
| move: "reachablePosition p \<Longrightarrow> reachablePosition (menuMove p c)"

text \<open>
  The number of moves the root-seeking procedure needs from a position: one for each
  level below the top, one to change the top-level branch, one for each row above zero.
\<close>

definition seekBound :: "string \<Rightarrow> nat" where
  "seekBound pos =
     (length pos - 2) + (if hd pos = CHR ''0'' then 0 else 1) + the (digit_val (pos ! 1))"


section \<open>Vocabulary of the properties\<close>

text \<open>The commands the root-seeking procedure can send.\<close>

definition seekCommands :: "string set" where
  "seekCommands = {''?W'', ''C'', ''M0'', ''U''}"

text \<open>
  \<open>navigation s s' nav\<close>: from \<open>s\<close> to \<open>s'\<close> the exchanges \<open>nav\<close> were added, all
  of them commands of the root-seeking procedure; nothing printed was lost, nothing was
  closed and no pause was taken.
\<close>

definition navigation :: "'d session \<Rightarrow> 'd session \<Rightarrow> exchange list \<Rightarrow> bool" where
  "navigation s s' nav \<longleftrightarrow>
     exch s' = exch s @ nav \<and> set (concat (map command_of nav)) \<subseteq> seekCommands
     \<and> set (printed s) \<subseteq> set (printed s') \<and> closed s' = closed s \<and> slept s' = slept s"

text \<open>The number a string of binary digits stands for.\<close>

definition bin_value :: "string \<Rightarrow> nat" where
  "bin_value s = foldl (\<lambda>n c. 2 * n + (if c = CHR ''1'' then 1 else 0)) 0 s"

text \<open>
  The integer a binary numeral stands for: a minus sign may lead, the rest are binary
  digits.
\<close>

definition signed_bin_value :: "string \<Rightarrow> int" where
  "signed_bin_value s =
     (case s of
        [] \<Rightarrow> 0
      | c # ds \<Rightarrow> (if c = CHR ''-'' then - int (bin_value ds) else int (bin_value s)))"

section \<open>The monad of methods\<close>

lemma pbind_pret [simp]: "pbind (pret a) f = f a"
  by (rule ext) (simp add: pbind_def pret_def)

lemma pbind_praise [simp]: "pbind (praise e) f = praise e"
  by (rule ext) (simp add: pbind_def praise_def)

lemma plift_simps [simp]: "plift (Inr a) = pret a" "plift (Inl e) = praise e"
  by (simp_all add: plift_def)

lemma pret_Some [simp]: "pret a s = Some (res, s') \<longleftrightarrow> res = Inr a \<and> s' = s"
  by (auto simp: pret_def)

lemma praise_Some [simp]: "praise e s = Some (res, s') \<longleftrightarrow> res = Inl e \<and> s' = s"
  by (auto simp: praise_def)

lemma pbind_Some:
  "pbind m f s = Some (res, s') \<longleftrightarrow>
     (\<exists>e. m s = Some (Inl e, s') \<and> res = Inl e) \<or>
     (\<exists>a s1. m s = Some (Inr a, s1) \<and> f a s1 = Some (res, s'))"
  by (auto simp: pbind_def split: option.splits sum.splits prod.splits)

lemma pbind_Some_Inr:
  "pbind m f s = Some (Inr b, s') \<longleftrightarrow>
     (\<exists>a s1. m s = Some (Inr a, s1) \<and> f a s1 = Some (Inr b, s'))"
  by (simp add: pbind_Some)

lemma pbind_after: "m s = Some (Inr a, s1) \<Longrightarrow> pbind m f s = f a s1"
  by (simp add: pbind_def)

lemma pbind_fails: "m s = Some (Inl e, s1) \<Longrightarrow> pbind m f s = Some (Inl e, s1)"
  by (simp add: pbind_def)

lemma sendCommand_total: "\<exists>res s'. sendCommand t c cc s = Some (res, s')"
  by (simp add: sendCommand_def split: prod.splits option.splits)

lemma sendCommand_effect:
  assumes "sendCommand t c cc s = Some (res, s')"
  shows "exch s' = exch s @ [Query c (case res of Inl e \<Rightarrow> None | Inr r \<Rightarrow> Some r)]
         \<and> set (printed s) \<subseteq> set (printed s') \<and> closed s' = closed s \<and> slept s' = slept s
         \<and> (res = Inl TransportError \<or> (\<exists>r. res = Inr r))"
  using assms by (auto simp: sendCommand_def split: prod.splits option.splits)

lemma navigation_refl: "navigation s s []"
  by (simp add: navigation_def)

lemma navigation_trans:
  "navigation s s1 nav1 \<Longrightarrow> navigation s1 s2 nav2 \<Longrightarrow> navigation s s2 (nav1 @ nav2)"
  by (auto simp: navigation_def)

lemma navigation_sendCommand:
  "sendCommand t c cc s = Some (res, s') \<Longrightarrow> c \<in> seekCommands \<Longrightarrow>
   navigation s s' [Query c (case res of Inl e \<Rightarrow> None | Inr r \<Rightarrow> Some r)]"
  by (drule sendCommand_effect) (simp add: navigation_def)

lemma plift_apply: "plift r s = Some (r, s)"
  by (cases r) (simp_all add: pret_def praise_def)

lemma py_char_at_simps:
  "py_char_at r 0 = (if r = [] then Inl IndexError else Inr [hd r])"
  "py_char_at r 1 = (if length r \<le> 1 then Inl IndexError else Inr [r ! 1])"
  by (cases r; auto simp: py_char_at_def py_nth_def)+

lemma seekMove_cases:
  "seekMove t r s =
     (if length r > 2 then pbind (sendCommand t ''C'' True) (\<lambda>_. pret ()) s
      else if r = [] then Some (Inl IndexError, s)
      else if hd r \<noteq> CHR ''0'' then pbind (sendCommand t ''M0'' True) (\<lambda>_. pret ()) s
      else if length r \<le> 1 then Some (Inl IndexError, s)
      else if r ! 1 \<noteq> CHR ''0'' then pbind (sendCommand t ''U'' True) (\<lambda>_. pret ()) s
      else Some (Inr (), s))"
  by (simp add: seekMove_def py_char_at_simps pret_def praise_def)

lemma navigation_send_unit:
  assumes "pbind (sendCommand t c cc) (\<lambda>_. pret ()) s = Some (res, s')" and "c \<in> seekCommands"
  shows "\<exists>nav. navigation s s' nav"
  using assms by (auto simp: pbind_Some dest: navigation_sendCommand)

lemma seekMove_navigation:
  assumes "seekMove t r s = Some (res, s')"
  shows "\<exists>nav. navigation s s' nav"
proof -
  have cs: "''C'' \<in> seekCommands" "''M0'' \<in> seekCommands" "''U'' \<in> seekCommands"
    by (simp_all add: seekCommands_def)
  from assms show ?thesis
    unfolding seekMove_cases
    by (auto split: if_splits dest: navigation_send_unit[OF _ cs(1)]
          navigation_send_unit[OF _ cs(2)] navigation_send_unit[OF _ cs(3)]
          intro: navigation_refl)
qed

lemma seekStep_navigation:
  assumes "seekStep t r s = Some (res, s')"
  shows "\<exists>nav. navigation s s' nav \<and>
           (\<forall>r'. res = Inr r' \<longrightarrow> nav \<noteq> [] \<and> last nav = Query ''?W'' (Some r'))"
proof -
  have w: "''?W'' \<in> seekCommands" by (simp add: seekCommands_def)
  from assms consider
      (fail) e where "seekMove t r s = Some (Inl e, s')" "res = Inl e"
    | (ask) s1 where "seekMove t r s = Some (Inr (), s1)" "getPosition t s1 = Some (res, s')"
    by (auto simp: seekStep_def pbind_Some)
  then show ?thesis
  proof cases
    case fail
    then show ?thesis using seekMove_navigation by fastforce
  next
    case ask
    from seekMove_navigation[OF ask(1)] obtain nav1 where n1: "navigation s s1 nav1" by blast
    from ask(2) have n2:
      "navigation s1 s' [Query ''?W'' (case res of Inl e \<Rightarrow> None | Inr r \<Rightarrow> Some r)]"
      unfolding getPosition_def by (rule navigation_sendCommand[OF _ w])
    from navigation_trans[OF n1 n2] show ?thesis by (intro exI conjI, assumption) auto
  qed
qed

lemma seekLoop_navigation:
  assumes "seekLoop t r s = Some y"
  shows "\<exists>nav. navigation s (snd y) nav \<and>
           (fst y = Inr () \<longrightarrow> (r = ''00'' \<and> nav = []) \<or>
                                 (nav \<noteq> [] \<and> last nav = Query ''?W'' (Some ''00'')))"
proof -
  let ?P = "\<lambda>(t :: 'a transport) r s y. \<exists>nav. navigation s (snd y) nav \<and>
           (fst y = Inr () \<longrightarrow> (r = ''00'' \<and> nav = []) \<or>
                                 (nav \<noteq> [] \<and> last nav = Query ''?W'' (Some ''00'')))"
  show ?thesis
  proof (rule seekLoop.raw_induct[where P = ?P, OF _ assms])
    fix loop :: "'a transport \<Rightarrow> string \<Rightarrow> 'a session \<Rightarrow> ((error + unit) \<times> 'a session) option"
      and tt :: "'a transport" and rr ss yy
    assume IH: "\<And>t r s y. loop t r s = Some y \<Longrightarrow> ?P t r s y"
    assume body: "(if rr = ''00'' then Some (Inr (), ss)
                   else case seekStep tt rr ss of None \<Rightarrow> None
                        | Some (Inl e, s') \<Rightarrow> Some (Inl e, s')
                        | Some (Inr r', s') \<Rightarrow> loop tt r' s') = Some yy"
    show "?P tt rr ss yy"
    proof (cases "rr = ''00''")
      case True
      with body have "yy = (Inr (), ss)" by simp
      with True show ?thesis by (intro exI[of _ "[]"]) (simp add: navigation_refl)
    next
      case False
      with body consider
          (fail) e s' where "seekStep tt rr ss = Some (Inl e, s')" "yy = (Inl e, s')"
        | (again) r' s1 where "seekStep tt rr ss = Some (Inr r', s1)" "loop tt r' s1 = Some yy"
        by (auto split: option.splits sum.splits prod.splits)
      then show ?thesis
      proof cases
        case fail
        then show ?thesis using seekStep_navigation by fastforce
      next
        case again
        from seekStep_navigation[OF again(1)] obtain nav1 where
          n1: "navigation ss s1 nav1" "nav1 \<noteq> []" "last nav1 = Query ''?W'' (Some r')" by auto
        from IH[OF again(2)] obtain nav2 where
          n2: "navigation s1 (snd yy) nav2"
              "fst yy = Inr () \<longrightarrow> (r' = ''00'' \<and> nav2 = []) \<or>
                                    (nav2 \<noteq> [] \<and> last nav2 = Query ''?W'' (Some ''00''))" by blast
        have "navigation ss (snd yy) (nav1 @ nav2)" using n1(1) n2(1) by (rule navigation_trans)
        moreover have "fst yy = Inr () \<longrightarrow>
            nav1 @ nav2 \<noteq> [] \<and> last (nav1 @ nav2) = Query ''?W'' (Some ''00'')"
          using n1(2,3) n2(2) by auto
        ultimately show ?thesis by blast
      qed
    qed
  qed
qed

lemma goToSetupPosition_navigation:
  assumes "goToSetupPosition t s = Some (res, s')"
  shows "\<exists>nav. navigation s s' nav \<and>
           (res = Inr () \<longrightarrow> nav \<noteq> [] \<and> last nav = Query ''?W'' (Some ''00''))"
proof -
  have w: "''?W'' \<in> seekCommands" by (simp add: seekCommands_def)
  from assms consider
      (fail) e where "getPosition t s = Some (Inl e, s')" "res = Inl e"
    | (loop) r s1 where "getPosition t s = Some (Inr r, s1)" "seekLoop t r s1 = Some (res, s')"
    by (auto simp: goToSetupPosition_def pbind_Some)
  then show ?thesis
  proof cases
    case fail
    then show ?thesis
      unfolding getPosition_def using navigation_sendCommand[OF _ w] by fastforce
  next
    case loop
    from loop(1) have n1: "navigation s s1 [Query ''?W'' (Some r)]"
      unfolding getPosition_def using navigation_sendCommand[OF _ w] by fastforce
    from seekLoop_navigation[OF loop(2)] obtain nav2 where
      n2: "navigation s1 s' nav2"
          "res = Inr () \<longrightarrow> (r = ''00'' \<and> nav2 = []) \<or>
                              (nav2 \<noteq> [] \<and> last nav2 = Query ''?W'' (Some ''00''))" by auto
    have "navigation s s' ([Query ''?W'' (Some r)] @ nav2)"
      using n1 n2(1) by (rule navigation_trans)
    moreover have "res = Inr () \<longrightarrow> last ([Query ''?W'' (Some r)] @ nav2) = Query ''?W'' (Some ''00'')"
      using n2(2) by auto
    ultimately show ?thesis by blast
  qed
qed

lemma pbind_assoc: "pbind (pbind m f) g = pbind m (\<lambda>a. pbind (f a) g)"
  by (rule ext) (simp add: pbind_def split: option.splits sum.splits prod.splits)

lemma pbind_same_start: "m s = m' s \<Longrightarrow> pbind m f s = pbind m' f s"
  by (simp add: pbind_def)

lemma sendCommand_sent:
  "sendCommand t c cc s = Some (res, s') \<Longrightarrow> sent s' = sent s @ [c]"
  by (drule sendCommand_effect) (simp add: sent_def)

text \<open>The equations that run a method on a simulated instrument.\<close>

lemmas run_defs = pbind_def pret_def praise_def plift_def pprint_def sleep_def
  sendCommand_def getPosition_def getStatus_def seekStep_def seekMove_cases
  goToSetupPosition_def seekLoop.simps start_def scripted_def


section \<open>The root-seeking procedure on the simulated instrument\<close>

lemma digit_val_cases:
  assumes "digit_val c = Some k"
  shows "k < 10 \<and> digit_char k = c"
  using assms by (auto simp: digit_val_def digit_char_def split: if_splits)

lemma digit_val_digit_char:
  assumes "k < 10"
  shows "digit_val (digit_char k) = Some k"
proof -
  from assms have "k = 0 \<or> k = 1 \<or> k = 2 \<or> k = 3 \<or> k = 4 \<or> k = 5 \<or> k = 6 \<or> k = 7 \<or> k = 8 \<or> k = 9"
    by arith
  then show ?thesis
    by (elim disjE) (simp_all add: digit_val_def digit_char_def)
qed

lemma digit_val_zero: "digit_val c = Some 0 \<longleftrightarrow> c = CHR ''0''"
  by (auto simp: digit_val_def split: if_splits)

lemma rowUp_digit:
  assumes "digit_val c = Some k"
  shows "digit_val (rowUp c) = Some (k - 1)"
proof (cases k)
  case 0
  with assms show ?thesis by (simp add: rowUp_def)
next
  case (Suc n)
  with assms have "n < 10" using digit_val_cases by fastforce
  with assms Suc show ?thesis by (simp add: rowUp_def digit_val_digit_char)
qed

lemma rowDown_digit:
  assumes "digit_val c \<noteq> None"
  shows "digit_val (rowDown c) \<noteq> None"
proof -
  from assms obtain k where k: "digit_val c = Some k" by auto
  show ?thesis
  proof (cases "k < 9")
    case True
    then have "digit_val (digit_char (Suc k)) = Some (Suc k)" by (intro digit_val_digit_char) simp
    with k True show ?thesis by (simp add: rowDown_def)
  next
    case False
    with k show ?thesis by (simp add: rowDown_def)
  qed
qed

lemma menu_getPosition:
  "getPosition menuDevice s = Some (Inr (dev s), s\<lparr>exch := exch s @ [Query ''?W'' (Some (dev s))]\<rparr>)"
  by (simp add: getPosition_def sendCommand_def menuDevice_def)

lemma menu_send:
  assumes "c \<noteq> ''?W''"
  shows "sendCommand menuDevice c cc s =
           Some (Inr c, s\<lparr>dev := menuMove (dev s) c, exch := exch s @ [Query c (Some c)]\<rparr>)"
  using assms by (simp add: sendCommand_def menuDevice_def)

lemma wellFormed_two:
  "wellFormedPosition [a, b] \<longleftrightarrow> digit_val a \<noteq> None \<and> digit_val b \<noteq> None"
  by (auto simp: wellFormedPosition_def)

lemma seekBound_zero:
  assumes "wellFormedPosition p" and "seekBound p = 0"
  shows "p = ''00''"
proof -
  from assms have len: "length p = 2" by (simp add: wellFormedPosition_def seekBound_def)
  then obtain a b where p: "p = [a, b]"
    by (cases p; simp; case_tac list; simp)
  with assms have "a = CHR ''0''" and "digit_val b = Some 0"
    by (auto simp: seekBound_def wellFormedPosition_def split: if_splits)
  with p show ?thesis by (simp add: digit_val_zero)
qed

lemma menu_seekStep:
  assumes wf: "wellFormedPosition (dev s)" and nz: "dev s \<noteq> ''00''"
  shows "\<exists>s1. seekStep menuDevice (dev s) s = Some (Inr (dev s1), s1)
              \<and> wellFormedPosition (dev s1) \<and> Suc (seekBound (dev s1)) = seekBound (dev s)
              \<and> length (exch s1) = length (exch s) + 2
              \<and> last (exch s1) = Query ''?W'' (Some (dev s1))"
proof (cases "length (dev s) > 2")
  case True
  let ?p = "dev s"
  let ?s1 = "s\<lparr>dev := butlast ?p, exch := exch s @ [Query ''C'' (Some ''C''), Query ''?W'' (Some (butlast ?p))]\<rparr>"
  have run: "seekStep menuDevice ?p s = Some (Inr (dev ?s1), ?s1)"
    using True by (simp add: seekStep_def seekMove_cases menu_send menu_getPosition pbind_def pret_def menuMove_def)
  have wf1: "wellFormedPosition (butlast ?p)"
    using wf True by (auto simp: wellFormedPosition_def dest: in_set_butlastD)
  have "hd (butlast ?p) = hd ?p"
    using True by (cases "dev s") auto
  moreover have "butlast ?p ! 1 = ?p ! 1"
    using True by (simp add: nth_butlast)
  ultimately have "Suc (seekBound (butlast ?p)) = seekBound ?p"
    using True by (simp add: seekBound_def)
  with run wf1 show ?thesis by (intro exI[of _ ?s1]) simp
next
  case False
  with wf have "length (dev s) = 2" by (simp add: wellFormedPosition_def)
  then obtain a b where p: "dev s = [a, b]"
    by (cases "dev s"; simp; case_tac list; simp)
  from wf p obtain ka kb where d: "digit_val a = Some ka" "digit_val b = Some kb"
    by (auto simp: wellFormed_two)
  show ?thesis
  proof (cases "a = CHR ''0''")
    case False
    let ?s1 = "s\<lparr>dev := [CHR ''0'', b], exch := exch s @ [Query ''M0'' (Some ''M0''), Query ''?W'' (Some [CHR ''0'', b])]\<rparr>"
    have run: "seekStep menuDevice (dev s) s = Some (Inr (dev ?s1), ?s1)"
      using False p by (simp add: seekStep_def seekMove_cases menu_send menu_getPosition pbind_def pret_def menuMove_def)
    have "wellFormedPosition [CHR ''0'', b]" using d by (simp add: wellFormed_two digit_val_def)
    moreover have "Suc (seekBound [CHR ''0'', b]) = seekBound (dev s)"
      using False p by (simp add: seekBound_def)
    ultimately show ?thesis using run by (intro exI[of _ ?s1]) simp
  next
    case True
    with nz p have b: "b \<noteq> CHR ''0''" by simp
    with d have kb: "kb \<noteq> 0" using digit_val_zero[of b] by auto
    let ?s1 = "s\<lparr>dev := [CHR ''0'', rowUp b], exch := exch s @ [Query ''U'' (Some ''U''), Query ''?W'' (Some [CHR ''0'', rowUp b])]\<rparr>"
    have run: "seekStep menuDevice (dev s) s = Some (Inr (dev ?s1), ?s1)"
      using True b p by (simp add: seekStep_def seekMove_cases menu_send menu_getPosition pbind_def pret_def menuMove_def)
    have up: "digit_val (rowUp b) = Some (kb - 1)" using d(2) by (rule rowUp_digit)
    then have "wellFormedPosition [CHR ''0'', rowUp b]" by (simp add: wellFormed_two digit_val_def)
    moreover have "Suc (seekBound [CHR ''0'', rowUp b]) = seekBound (dev s)"
      using True p up d kb by (simp add: seekBound_def)
    ultimately show ?thesis using run by (intro exI[of _ ?s1]) simp
  qed
qed

lemma menu_seekLoop:
  assumes "wellFormedPosition (dev s)" and "seekBound (dev s) = n"
  shows "\<exists>s'. seekLoop menuDevice (dev s) s = Some (Inr (), s') \<and> dev s' = ''00''
              \<and> length (exch s') = length (exch s) + 2 * n
              \<and> (0 < n \<longrightarrow> last (exch s') = Query ''?W'' (Some ''00''))"
  using assms
proof (induction n arbitrary: s)
  case 0
  then have "dev s = ''00''" by (intro seekBound_zero)
  then show ?case by (subst seekLoop.simps) simp
next
  case (Suc n)
  then have nz: "dev s \<noteq> ''00''" by (auto simp: seekBound_def digit_val_def)
  from menu_seekStep[OF Suc.prems(1) nz] obtain s1 where
    s1: "seekStep menuDevice (dev s) s = Some (Inr (dev s1), s1)" "wellFormedPosition (dev s1)"
        "Suc (seekBound (dev s1)) = seekBound (dev s)" "length (exch s1) = length (exch s) + 2"
        "last (exch s1) = Query ''?W'' (Some (dev s1))" by blast
  from s1(3) Suc.prems(2) have "seekBound (dev s1) = n" by simp
  from Suc.IH[OF s1(2) this] obtain s' where
    s': "seekLoop menuDevice (dev s1) s1 = Some (Inr (), s')" "dev s' = ''00''"
        "length (exch s') = length (exch s1) + 2 * n"
        "0 < n \<longrightarrow> last (exch s') = Query ''?W'' (Some ''00'')" by blast
  have run: "seekLoop menuDevice (dev s) s = Some (Inr (), s')"
    using nz s1(1) s'(1) by (subst seekLoop.simps) simp
  have "last (exch s') = Query ''?W'' (Some ''00'')"
  proof (cases n)
    case 0
    with \<open>seekBound (dev s1) = n\<close> s1(2) have z: "dev s1 = ''00''" by (intro seekBound_zero) simp_all
    with s'(1) have "s' = s1" by (subst (asm) seekLoop.simps) simp
    with s1(5) z show ?thesis by simp
  next
    case (Suc m)
    with s'(4) show ?thesis by simp
  qed
  with run s'(2,3) s1(4) show ?case by simp
qed

lemma menu_goToSetupPosition:
  assumes "wellFormedPosition (dev s)"
  shows "\<exists>s'. goToSetupPosition menuDevice s = Some (Inr (), s') \<and> dev s' = ''00''
              \<and> length (exch s') = length (exch s) + 1 + 2 * seekBound (dev s)
              \<and> last (exch s') = Query ''?W'' (Some ''00'')"
proof -
  let ?s0 = "s\<lparr>exch := exch s @ [Query ''?W'' (Some (dev s))]\<rparr>"
  have "\<exists>s'. seekLoop menuDevice (dev s) ?s0 = Some (Inr (), s') \<and> dev s' = ''00''
              \<and> length (exch s') = length (exch s) + 1 + 2 * seekBound (dev s)
              \<and> (0 < seekBound (dev s) \<longrightarrow> last (exch s') = Query ''?W'' (Some ''00''))"
    using menu_seekLoop[of ?s0 "seekBound (dev s)"] assms by simp
  then obtain s' where
    s': "seekLoop menuDevice (dev s) ?s0 = Some (Inr (), s')" "dev s' = ''00''"
        "length (exch s') = length (exch s) + 1 + 2 * seekBound (dev s)"
        "0 < seekBound (dev s) \<longrightarrow> last (exch s') = Query ''?W'' (Some ''00'')"
    by (elim exE conjE)
  have run: "goToSetupPosition menuDevice s = Some (Inr (), s')"
    using s'(1) by (simp add: goToSetupPosition_def pbind_def menu_getPosition)
  have "last (exch s') = Query ''?W'' (Some ''00'')"
  proof (cases "seekBound (dev s) = 0")
    case True
    with assms have z: "dev s = ''00''" by (intro seekBound_zero)
    with s'(1) have "s' = ?s0" by (subst (asm) seekLoop.simps) simp
    with z show ?thesis by simp
  next
    case False
    with s'(4) show ?thesis by simp
  qed
  with run s'(2,3) show ?thesis by simp
qed

lemma menuMove_wellFormed:
  assumes "wellFormedPosition p"
  shows "wellFormedPosition (menuMove p c)"
proof -
  have up: "wellFormedPosition (butlast p @ [rowUp (last p)])"
    using assms rowUp_digit[of "last p"]
    by (cases p rule: rev_cases) (auto simp: wellFormedPosition_def)
  have down: "wellFormedPosition (butlast p @ [rowDown (last p)])"
    using assms rowDown_digit[of "last p"]
    by (cases p rule: rev_cases) (auto simp: wellFormedPosition_def)
  have cancel: "length p > 2 \<Longrightarrow> wellFormedPosition (butlast p)"
    using assms by (auto simp: wellFormedPosition_def dest: in_set_butlastD)
  have enter: "wellFormedPosition (p @ ''0'')"
    using assms by (auto simp: wellFormedPosition_def digit_val_def)
  have zero: "wellFormedPosition (CHR ''0'' # tl p)"
    using assms by (cases p) (auto simp: wellFormedPosition_def digit_val_def)
  have m0: "(case p of [] \<Rightarrow> [] | b # rows \<Rightarrow> CHR ''0'' # rows) = CHR ''0'' # tl p"
    using assms by (cases p) (auto simp: wellFormedPosition_def)
  have len: "\<not> length p < 2"
    using assms by (simp add: wellFormedPosition_def)
  show ?thesis
    unfolding menuMove_def m0
    using assms up down cancel enter zero len by (simp del: One_nat_def)
qed

lemma reachablePosition_wellFormed:
  assumes "reachablePosition p"
  shows "wellFormedPosition p"
  using assms
proof (induction rule: reachablePosition.induct)
  case root
  show ?case by (simp add: wellFormedPosition_def digit_val_def)
next
  case (move p c)
  then show ?case by (simp add: menuMove_wellFormed)
qed


section \<open>Binary digits\<close>

lemma replicate_numeral: "replicate (numeral k) x = x # replicate (pred_numeral k) x"
  by (simp add: numeral_eq_Suc)

lemma digit_char_bit: "k < 2 \<Longrightarrow> digit_char k = (if k = 0 then CHR ''0'' else CHR ''1'')"
  by (cases k) (auto simp: digit_char_def)

lemma bin_digits_small: "n < 2 \<Longrightarrow> bin_digits n = [if n = 0 then CHR ''0'' else CHR ''1'']"
  by (subst bin_digits.simps) (simp add: digit_char_bit)

lemma bin_digits_large:
  "\<not> n < 2 \<Longrightarrow>
   bin_digits n = bin_digits (n div 2) @ [if n mod 2 = 0 then CHR ''0'' else CHR ''1'']"
  by (subst bin_digits.simps) (simp add: digit_char_bit)

lemma bin_digits_set: "set (bin_digits n) \<subseteq> {CHR ''0'', CHR ''1''}"
proof (induction n rule: bin_digits.induct)
  case (1 n)
  show ?case
  proof (cases "n < 2")
    case True
    then show ?thesis by (simp add: bin_digits_small)
  next
    case False
    with 1 show ?thesis by (simp add: bin_digits_large)
  qed
qed

lemma bin_value_snoc:
  "bin_value (xs @ [c]) = 2 * bin_value xs + (if c = CHR ''1'' then 1 else 0)"
  by (simp add: bin_value_def)

lemma bin_value_bin_digits: "bin_value (bin_digits n) = n"
proof (induction n rule: bin_digits.induct)
  case (1 n)
  show ?case
  proof (cases "n < 2")
    case True
    then show ?thesis by (auto simp: bin_digits_small bin_value_def)
  next
    case False
    with 1 have "bin_value (bin_digits (n div 2)) = n div 2" by simp
    with False show ?thesis by (simp add: bin_digits_large bin_value_snoc) presburger
  qed
qed

lemma bin_value_zeros: "bin_value (replicate m CHR ''0'' @ xs) = bin_value xs"
proof -
  have "foldl (\<lambda>n c. 2 * n + (if c = CHR ''1'' then 1 else 0)) (0::nat) (replicate m CHR ''0'') = 0"
    by (induction m) simp_all
  then show ?thesis by (simp add: bin_value_def)
qed

lemma length_bin_digits_pos: "0 < length (bin_digits n)"
  by (cases "n < 2") (simp_all add: bin_digits_small bin_digits_large)

lemma length_bin_digits_le:
  assumes "n < 2 ^ k" and "0 < k"
  shows "length (bin_digits n) \<le> k"
  using assms
proof (induction k arbitrary: n)
  case 0
  then show ?case by simp
next
  case (Suc j)
  show ?case
  proof (cases "n < 2")
    case True
    then show ?thesis by (simp add: bin_digits_small)
  next
    case False
    with Suc.prems have j: "0 < j" by (cases j) auto
    from Suc.prems have "n div 2 < 2 ^ j" by auto
    from Suc.IH[OF this j] False show ?thesis by (simp add: bin_digits_large)
  qed
qed

lemma length_bin_digits_gt:
  assumes "2 ^ k \<le> n"
  shows "k < length (bin_digits n)"
  using assms
proof (induction k arbitrary: n)
  case 0
  show ?case by (rule length_bin_digits_pos)
next
  case (Suc j)
  from Suc.prems have "2 * 2 ^ j \<le> n" by simp
  moreover have "(1::nat) \<le> 2 ^ j" by simp
  ultimately have big: "\<not> n < 2" by linarith
  from Suc.prems have "2 ^ j \<le> n div 2" by auto
  from Suc.IH[OF this] big show ?case by (simp add: bin_digits_large)
qed


section \<open>Setting the voltage\<close>

lemma index_of_mem:
  assumes "v \<in> set xs"
  shows "\<exists>i. index_of xs v = Inr i \<and> i < length xs"
  using assms by (induction xs) auto

lemma sendRepeated_effect:
  assumes "sendRepeated t c n s = Some (Inr rs, s')"
  shows "\<exists>steps. exch s' = exch s @ steps \<and> concat (map command_of steps) = replicate n c
           \<and> set (printed s) \<subseteq> set (printed s')"
  using assms
proof (induction n arbitrary: s rs)
  case 0
  then show ?case by simp
next
  case (Suc n)
  from Suc.prems obtain r s1 rs' where
    first: "sendCommand t c True s = Some (Inr r, s1)"
    and rest: "sendRepeated t c n s1 = Some (Inr rs', s')"
    by (auto simp: pbind_Some_Inr)
  from sendCommand_effect[OF first] have
    e1: "exch s1 = exch s @ [Query c (Some r)]" "set (printed s) \<subseteq> set (printed s1)" by simp_all
  from Suc.IH[OF rest] obtain steps where
    e2: "exch s' = exch s1 @ steps" "concat (map command_of steps) = replicate n c"
        "set (printed s1) \<subseteq> set (printed s')" by blast
  show ?case
    using e1 e2 by (intro exI[of _ "Query c (Some r) # steps"]) auto
qed

lemma stepVoltage_effect:
  assumes "stepVoltage t move s = Some (Inr (), s')"
  shows "\<exists>steps. exch s' = exch s @ steps
           \<and> concat (map command_of steps) =
               replicate (nat \<bar>move\<bar>) (if 0 < move then ''U'' else ''D'')
           \<and> set (printed s) \<subseteq> set (printed s')"
proof -
  consider (up) "0 < move" | (down) "move < 0" | (stay) "move = 0" by linarith
  then show ?thesis
  proof cases
    case up
    with assms obtain rs where "sendRepeated t ''U'' (nat move) s = Some (Inr rs, s')"
      by (auto simp: stepVoltage_def pbind_Some_Inr)
    from sendRepeated_effect[OF this] up show ?thesis by simp
  next
    case down
    with assms obtain rs where "sendRepeated t ''D'' (nat (- move)) s = Some (Inr rs, s')"
      by (auto simp: stepVoltage_def pbind_Some_Inr)
    from sendRepeated_effect[OF this] down show ?thesis by simp
  next
    case stay
    with assms have "s' = s" by (simp add: stepVoltage_def)
    with stay show ?thesis by simp
  qed
qed

lemma navigation_exch:
  "navigation s s' nav \<Longrightarrow> exch s' = exch s @ nav \<and> set (printed s) \<subseteq> set (printed s')"
  by (simp add: navigation_def)

lemma sendRepeated_numeral:
  "sendRepeated t c (numeral k) =
     pbind (sendCommand t c True) (\<lambda>r.
     pbind (sendRepeated t c (pred_numeral k)) (\<lambda>rs.
     pret (r # rs)))"
  by (simp add: numeral_eq_Suc)

lemmas voltage_defs = setVoltage_def getVoltage_def stepVoltage_def verifyVoltage_def
  checkVoltage_def
  listOfVoltages_def sendRepeated_numeral py_split_def py_isspace_def py_nth_def
  py_int_def int_strip_def int_isspace_def dec_value_def digit_val_def Let_def

lemma sendCommand_answers:
  assumes "fst (serial_query t (dev s) c) \<noteq> None"
  shows "\<exists>r s'. sendCommand t c cc s = Some (Inr r, s')"
  using assms by (cases "serial_query t (dev s) c") (auto simp: sendCommand_def)

lemma sendRepeated_answers:
  assumes "\<forall>d. fst (serial_query t d c) \<noteq> None"
  shows "\<exists>rs s'. sendRepeated t c n s = Some (Inr rs, s')"
proof (induction n arbitrary: s)
  case 0
  show ?case by simp
next
  case (Suc n)
  from assms obtain r s1 where a: "sendCommand t c True s = Some (Inr r, s1)"
    using sendCommand_answers[of t s c True] by blast
  from Suc.IH[of s1] obtain rs s' where b: "sendRepeated t c n s1 = Some (Inr rs, s')" by blast
  from a b show ?case by (simp add: pbind_def)
qed

lemma stepVoltage_answers:
  assumes "\<forall>d. fst (serial_query t d ''U'') \<noteq> None"
    and "\<forall>d. fst (serial_query t d ''D'') \<noteq> None"
  shows "\<exists>s'. stepVoltage t move s = Some (Inr (), s')"
proof -
  obtain ru su where u: "sendRepeated t ''U'' (nat move) s = Some (Inr ru, su)"
    using sendRepeated_answers[OF assms(1)] by blast
  obtain rd sd where d: "sendRepeated t ''D'' (nat (- move)) s = Some (Inr rd, sd)"
    using sendRepeated_answers[OF assms(2)] by blast
  consider (up) "0 < move" | (down) "move < 0" | (stay) "move = 0" by linarith
  then show ?thesis
  proof cases
    case up
    with u show ?thesis by (simp add: stepVoltage_def pbind_def pret_def)
  next
    case down
    with d show ?thesis by (simp add: stepVoltage_def pbind_def pret_def)
  next
    case stay
    then show ?thesis by (simp add: stepVoltage_def)
  qed
qed

lemma confirm_grows:
  assumes "pbind (sendCommand t ''E'' False) (\<lambda>response.
             if response \<noteq> ''E''
             then pbind (sendCommand t ''G'' False) (\<lambda>_. pret ())
             else pret ()) s = Some (res, s')"
  shows "\<exists>rest. exch s' = exch s @ rest"
  using assms
  by (auto simp: pbind_Some split: if_splits dest!: sendCommand_effect)

lemma goToSetupPosition_grows:
  assumes "goToSetupPosition t s = Some (res, s')"
  shows "\<exists>rest. exch s' = exch s @ rest"
  using goToSetupPosition_navigation[OF assms] by (auto simp: navigation_def)

lemma checkVoltage_grows:
  assumes "checkVoltage t voltage reply s = Some (res, s')"
  shows "\<exists>rest. exch s' = exch s @ rest"
proof -
  let ?mid = "if voltage \<noteq> readBack
            then pprint ''Error setting the requested voltage, operation aborted.''
            else pbind (sendCommand t ''E'' False) (\<lambda>response.
                   if response \<noteq> ''E''
                   then pbind (sendCommand t ''G'' False) (\<lambda>_. pret ())
                   else pret ())"
  from assms consider
      (early) "s' = s"
    | (mid) readBack e where
        "(if voltage \<noteq> readBack
            then pprint ''Error setting the requested voltage, operation aborted.''
            else pbind (sendCommand t ''E'' False) (\<lambda>response.
                   if response \<noteq> ''E''
                   then pbind (sendCommand t ''G'' False) (\<lambda>_. pret ())
                   else pret ())) s = Some (Inl e, s')"
    | (seek) readBack s2 where
        "(if voltage \<noteq> readBack
            then pprint ''Error setting the requested voltage, operation aborted.''
            else pbind (sendCommand t ''E'' False) (\<lambda>response.
                   if response \<noteq> ''E''
                   then pbind (sendCommand t ''G'' False) (\<lambda>_. pret ())
                   else pret ())) s = Some (Inr (), s2)"
        "goToSetupPosition t s2 = Some (res, s')"
    unfolding checkVoltage_def
    by (auto simp: pbind_Some plift_apply)
  then show ?thesis
  proof cases
    case early
    then show ?thesis by simp
  next
    case mid
    then show ?thesis
      by (cases "voltage \<noteq> readBack") (auto simp: pprint_def dest: confirm_grows)
  next
    case seek
    from seek(1) have "\<exists>rest. exch s2 = exch s @ rest"
      by (cases "voltage \<noteq> readBack") (auto simp: pprint_def dest: confirm_grows)
    moreover from goToSetupPosition_grows[OF seek(2)] have "\<exists>rest. exch s' = exch s2 @ rest" .
    ultimately show ?thesis by auto
  qed
qed

lemma scriptedThenEcho_answers: "fst (serial_query scriptedThenEcho d c) \<noteq> None"
  by (cases d) (simp_all add: scriptedThenEcho_def)

lemma py_int_error: "py_int x = Inl e \<Longrightarrow> e = ValueError"
  by (auto simp: py_int_def split: list.splits if_splits option.splits)

lemma py_nth_first: "py_nth xs 0 = (case xs of [] \<Rightarrow> Inl IndexError | x # rest \<Rightarrow> Inr x)"
  by (cases xs) (simp_all add: py_nth_def)


section \<open>The format of the flags\<close>

lemma format_08b_nonneg:
  assumes "0 \<le> n"
  shows "set (format_08b n) \<subseteq> {CHR ''0'', CHR ''1''}"
    and "signed_bin_value (format_08b n) = n"
    and "n < 256 \<Longrightarrow> length (format_08b n) = 8"
    and "256 \<le> n \<Longrightarrow> 8 < length (format_08b n)"
proof -
  let ?b = "bin_digits (nat n)"
  have f: "format_08b n = replicate (8 - length ?b) CHR ''0'' @ ?b"
    using assms by (simp add: format_08b_def)
  show digits: "set (format_08b n) \<subseteq> {CHR ''0'', CHR ''1''}"
    unfolding f using bin_digits_set[of "nat n"] by auto
  have ne: "format_08b n \<noteq> []"
    unfolding f using length_bin_digits_pos[of "nat n"] by auto
  then obtain c ds where cd: "format_08b n = c # ds" by (cases "format_08b n") auto
  with digits have "c \<noteq> CHR ''-''" by auto
  with cd have "signed_bin_value (format_08b n) = int (bin_value (format_08b n))"
    by (simp add: signed_bin_value_def)
  also have "\<dots> = int (nat n)"
    unfolding f by (simp add: bin_value_zeros bin_value_bin_digits)
  finally show "signed_bin_value (format_08b n) = n" using assms by simp
  show "length (format_08b n) = 8" if "n < 256"
  proof -
    from that assms have "nat n < 2 ^ 8" by simp
    then have "length ?b \<le> 8" by (rule length_bin_digits_le) simp
    then show ?thesis unfolding f by simp
  qed
  show "8 < length (format_08b n)" if "256 \<le> n"
  proof -
    from that have "2 ^ 8 \<le> nat n" by simp
    then have "8 < length ?b" by (rule length_bin_digits_gt)
    then show ?thesis unfolding f by simp
  qed
qed

lemma format_08b_negative:
  assumes "n < 0"
  shows "\<exists>ds. format_08b n = CHR ''-'' # ds \<and> set ds \<subseteq> {CHR ''0'', CHR ''1''}"
    and "signed_bin_value (format_08b n) = n"
    and "- 128 < n \<Longrightarrow> length (format_08b n) = 8"
    and "n \<le> - 128 \<Longrightarrow> 8 < length (format_08b n)"
proof -
  let ?b = "bin_digits (nat (- n))"
  let ?ds = "replicate (7 - length ?b) CHR ''0'' @ ?b"
  have f: "format_08b n = CHR ''-'' # ?ds"
    using assms by (simp add: format_08b_def)
  have digits: "set ?ds \<subseteq> {CHR ''0'', CHR ''1''}"
    using bin_digits_set[of "nat (- n)"] by auto
  with f show "\<exists>ds. format_08b n = CHR ''-'' # ds \<and> set ds \<subseteq> {CHR ''0'', CHR ''1''}"
    by blast
  have "signed_bin_value (format_08b n) = - int (bin_value ?ds)"
    unfolding f by (simp add: signed_bin_value_def)
  also have "\<dots> = - int (nat (- n))"
    by (simp add: bin_value_zeros bin_value_bin_digits)
  finally show "signed_bin_value (format_08b n) = n" using assms by simp
  show "length (format_08b n) = 8" if "- 128 < n"
  proof -
    from that assms have "nat (- n) < 2 ^ 7" by simp
    then have "length ?b \<le> 7" by (rule length_bin_digits_le) simp
    then show ?thesis unfolding f by simp
  qed
  show "8 < length (format_08b n)" if "n \<le> - 128"
  proof -
    from that have "2 ^ 7 \<le> nat (- n)" by simp
    then have "7 < length ?b" by (rule length_bin_digits_gt)
    then show ?thesis unfolding f by simp
  qed
qed

lemmas flags_defs = getFlags_def py_int_def int_strip_def int_isspace_def dec_value_def
  digit_val_def format_08b_def bin_digits.simps digit_char_def replicate_numeral


section \<open>The claims\<close>

subsection \<open>C1: the move from a row above zero of the top level\<close>

text \<open>
  C1 says that in the root-seeking procedure a reported position of exactly two
  characters, the first one zero and the second one not, makes the procedure send
  \<^verbatim>\<open>D\<close>.  The code sends \<^verbatim>\<open>U\<close>: at such a position the loop sends \<^verbatim>\<open>U\<close> (with
  the echo check), asks the position again and goes on from the answer; the branch of
  the \<^verbatim>\<open>if\<close> chain sends that one command and nothing else.
\<close>

theorem seek_row_above_zero_sends_U:
  assumes "length r = 2" and "r ! 0 = CHR ''0''" and "r ! 1 \<noteq> CHR ''0''"
  shows "seekLoop t r s =
           pbind (sendCommand t ''U'' True) (\<lambda>_. pbind (getPosition t) (seekLoop t)) s
         \<and> (\<exists>res s'. seekMove t r s = Some (res, s') \<and> sent s' = sent s @ [''U''])"
proof -
  from assms have r: "r \<noteq> []" "hd r = CHR ''0''" "r \<noteq> ''00''"
    by (cases r; auto)+
  have mv: "seekMove t r s = pbind (sendCommand t ''U'' True) (\<lambda>_. pret ()) s"
    using assms r by (simp add: seekMove_cases)
  have "seekLoop t r s = pbind (seekStep t r) (seekLoop t) s"
    using r(3)
    by (subst seekLoop.simps) (simp add: pbind_def split: option.splits sum.splits prod.splits)
  also have "\<dots> = pbind (sendCommand t ''U'' True) (\<lambda>_. pbind (getPosition t) (seekLoop t)) s"
  proof -
    have "pbind (seekStep t r) (seekLoop t) s =
          pbind (seekMove t r) (\<lambda>_. pbind (getPosition t) (seekLoop t)) s"
      by (simp add: seekStep_def pbind_assoc)
    also have "\<dots> = pbind (pbind (sendCommand t ''U'' True) (\<lambda>_. pret ()))
                        (\<lambda>_. pbind (getPosition t) (seekLoop t)) s"
      using mv by (rule pbind_same_start)
    finally show ?thesis by (simp add: pbind_assoc)
  qed
  finally have a: "seekLoop t r s =
      pbind (sendCommand t ''U'' True) (\<lambda>_. pbind (getPosition t) (seekLoop t)) s" .
  obtain res s' where sc: "sendCommand t ''U'' True s = Some (res, s')"
    using sendCommand_total by blast
  then have "\<exists>res s'. seekMove t r s = Some (res, s') \<and> sent s' = sent s @ [''U'']"
    unfolding mv using sendCommand_sent[OF sc] by (cases res) (auto simp: pbind_def)
  with a show ?thesis by blast
qed

theorem seek_row_above_zero_sends_U_witness:
  "length ''01'' = 2 \<and> ''01'' ! 0 = CHR ''0'' \<and> ''01'' ! 1 \<noteq> CHR ''0'' \<and>
   seekLoop scripted ''01'' (start [''U'', ''00'']) =
     Some (Inr (), \<lparr>dev = [], exch = [Query ''U'' (Some ''U''), Query ''?W'' (Some ''00'')],
                     printed = [], slept = [], closed = False\<rparr>)"
  using seek_row_above_zero_sends_U[of "''01''" scripted "start [''U'', ''00'']"]
  by (simp add: run_defs)

text \<open>
  The instrument reports \<^verbatim>\<open>01\<close>, echoes the command and then reports \<^verbatim>\<open>00\<close>: the
  one command sent between the two position queries is \<^verbatim>\<open>U\<close>, and no \<^verbatim>\<open>D\<close> is
  sent at all.
\<close>

theorem seek_row_above_zero_counterexample:
  "goToSetupPosition scripted (start [''01'', ''U'', ''00'']) =
     Some (Inr (), \<lparr>dev = [],
                     exch = [Query ''?W'' (Some ''01''), Query ''U'' (Some ''U''),
                             Query ''?W'' (Some ''00'')],
                     printed = [], slept = [], closed = False\<rparr>)"
  by (simp add: run_defs)


subsection \<open>C9: the root-seeking procedure ends at the root\<close>

text \<open>
  C9: against the simulated instrument that moves one level for each command, the
  root-seeking procedure started at any position the instrument can be at (here: any
  code of at least two digits, which includes every position reachable from the root)
  returns, with the cursor at \<^verbatim>\<open>00\<close>, after exactly one position query and one move
  followed by a position query for each unit of \<open>seekBound\<close>.  And against any
  instrument whatever, when the procedure returns normally the last thing that
  happened on the link is a position query answered \<^verbatim>\<open>00\<close>: the loop is left only
  at the root.
\<close>

theorem seek_terminates_at_root:
  "((reachablePosition (dev s) \<or> wellFormedPosition (dev s)) \<longrightarrow>
      (\<exists>s'. goToSetupPosition menuDevice s = Some (Inr (), s') \<and> dev s' = ''00''
            \<and> length (exch s') = length (exch s) + 1 + 2 * seekBound (dev s)
            \<and> last (exch s') = Query ''?W'' (Some ''00'')))
   \<and> (goToSetupPosition t s0 = Some (Inr (), s1) \<longrightarrow>
        exch s1 \<noteq> [] \<and> last (exch s1) = Query ''?W'' (Some ''00''))"
proof (intro conjI impI)
  assume "reachablePosition (dev s) \<or> wellFormedPosition (dev s)"
  then have "wellFormedPosition (dev s)" using reachablePosition_wellFormed by blast
  then show "\<exists>s'. goToSetupPosition menuDevice s = Some (Inr (), s') \<and> dev s' = ''00''
            \<and> length (exch s') = length (exch s) + 1 + 2 * seekBound (dev s)
            \<and> last (exch s') = Query ''?W'' (Some ''00'')"
    by (rule menu_goToSetupPosition)
next
  assume run: "goToSetupPosition t s0 = Some (Inr (), s1)"
  from goToSetupPosition_navigation[OF run] obtain nav where
    nav: "navigation s0 s1 nav" "nav \<noteq> []" "last nav = Query ''?W'' (Some ''00'')" by auto
  then have e: "exch s1 = exch s0 @ nav" by (simp add: navigation_def)
  with nav(2) show "exch s1 \<noteq> []" by simp
  from e nav(2,3) show "last (exch s1) = Query ''?W'' (Some ''00'')" by simp
qed

text \<open>
  From \<^verbatim>\<open>0312\<close> the simulated instrument is taken to the root with two
  \<^verbatim>\<open>C\<close> and three \<^verbatim>\<open>U\<close>: eleven exchanges.
\<close>

theorem seek_terminates_at_root_witness:
  "wellFormedPosition (dev (start ''0312'')) \<and>
   goToSetupPosition menuDevice (start ''0312'') =
     Some (Inr (), \<lparr>dev = ''00'',
                     exch = [Query ''?W'' (Some ''0312''), Query ''C'' (Some ''C''),
                             Query ''?W'' (Some ''031''), Query ''C'' (Some ''C''),
                             Query ''?W'' (Some ''03''), Query ''U'' (Some ''U''),
                             Query ''?W'' (Some ''02''), Query ''U'' (Some ''U''),
                             Query ''?W'' (Some ''01''), Query ''U'' (Some ''U''),
                             Query ''?W'' (Some ''00'')],
                     printed = [], slept = [], closed = False\<rparr>) \<and>
   1 + 2 * seekBound ''0312'' = 11 \<and>
   goToSetupPosition scripted (start [''120'', ''C'', ''12'', ''M0'', ''00'']) =
     Some (Inr (), \<lparr>dev = [],
                     exch = [Query ''?W'' (Some ''120''), Query ''C'' (Some ''C''),
                             Query ''?W'' (Some ''12''), Query ''M0'' (Some ''M0''),
                             Query ''?W'' (Some ''00'')],
                     printed = [], slept = [], closed = False\<rparr>)"
  using seek_terminates_at_root[of "start ''0312''" scripted
          "start [''120'', ''C'', ''12'', ''M0'', ''00'']"]
  by (simp add: run_defs menuDevice_def menuMove_def rowUp_def digit_val_def digit_char_def
        wellFormedPosition_def seekBound_def)


subsection \<open>C5: values outside the domain are refused before anything is sent\<close>

text \<open>
  C5: a voltage that is not in the list of voltages (\<^verbatim>\<open>setVoltage\<close>), a range name
  that is not one of Low, Medium, High (\<^verbatim>\<open>setRange\<close>) and an integration time that
  is not an \<^verbatim>\<open>int\<close> between 6 and 9999 (\<^verbatim>\<open>setIntegrationTime\<close>) each end in the
  assertion error, and the session is the one the method started in: nothing was
  sent, printed or changed.
\<close>

theorem invalid_input_rejected_before_interaction:
  "(voltage \<notin> set listOfVoltages \<longrightarrow>
      setVoltage t voltage s =
        Some (Inl (AssertionError (str_int voltage @ '' V is not a valid value of voltage'')), s))
   \<and> (rng \<notin> {''Low'', ''Medium'', ''High''} \<longrightarrow>
      setRange t rng s = Some (Inl (AssertionError ''Range not recognised''), s))
   \<and> ((\<forall>n. integrationTime = PyInt n \<longrightarrow> n < 6 \<or> 9999 < n) \<longrightarrow>
      setIntegrationTime t integrationTime s =
        Some (Inl (AssertionError
                (str_pyval integrationTime @ '' s is not a valid value of integration time'')), s))"
proof (intro conjI impI)
  assume "voltage \<notin> set listOfVoltages"
  then show "setVoltage t voltage s =
        Some (Inl (AssertionError (str_int voltage @ '' V is not a valid value of voltage'')), s)"
    by (simp add: setVoltage_def praise_def)
next
  assume "rng \<notin> {''Low'', ''Medium'', ''High''}"
  then show "setRange t rng s = Some (Inl (AssertionError ''Range not recognised''), s)"
    by (simp add: setRange_def praise_def)
next
  assume "\<forall>n. integrationTime = PyInt n \<longrightarrow> n < 6 \<or> 9999 < n"
  then have "\<not> validIntegrationTime integrationTime"
    by (cases integrationTime) (auto simp: validIntegrationTime_def)
  then show "setIntegrationTime t integrationTime s =
        Some (Inl (AssertionError
                (str_pyval integrationTime @ '' s is not a valid value of integration time'')), s)"
    by (simp add: setIntegrationTime_def praise_def)
qed

text \<open>The voltage 75, the range name Purple and the integration time 5 are refused.\<close>

theorem invalid_input_rejected_witness:
  "75 \<notin> set listOfVoltages
   \<and> setVoltage scripted 75 (start [''x'']) =
       Some (Inl (AssertionError ''75 V is not a valid value of voltage''), start [''x''])
   \<and> ''Purple'' \<notin> {''Low'', ''Medium'', ''High''}
   \<and> setRange scripted ''Purple'' (start [''x'']) =
       Some (Inl (AssertionError ''Range not recognised''), start [''x''])
   \<and> \<not> validIntegrationTime (PyInt 5)
   \<and> setIntegrationTime scripted (PyInt 5) (start [''x'']) =
       Some (Inl (AssertionError ''5 s is not a valid value of integration time''), start [''x''])"
  using invalid_input_rejected_before_interaction[of 75 scripted "start [''x'']" "''Purple''" "PyInt 5"]
  by (simp add: listOfVoltages_def str_int_def str_pyval_def dec_digits.simps digit_char_def
        validIntegrationTime_def)


subsection \<open>C4: the range names\<close>

text \<open>
  C4 says that \<^verbatim>\<open>setRange\<close> takes the names Low, Medium and High in any letter
  case.  The assertion admits the three names only as written here, so that is what
  holds: for Low, Medium, High exactly one command is sent, \<^verbatim>\<open>R0\<close>, \<^verbatim>\<open>R1\<close>,
  \<^verbatim>\<open>R2\<close>; every string that is neither one of them nor one of the spellings low,
  medium, high ends in the assertion error with the session untouched.  (The body of
  the method compares with the lower-case spellings too, which the assertion never
  lets through; the statement says nothing about those three.)
\<close>

theorem setRange_exact_names:
  "(rng \<in> {''Low'', ''Medium'', ''High''} \<longrightarrow>
      (\<exists>res s'. setRange t rng s = Some (res, s') \<and>
         sent s' = sent s @ [''R'' @ (if rng = ''Low'' then ''0''
                                       else if rng = ''Medium'' then ''1'' else ''2'')]))
   \<and> (rng \<notin> {''Low'', ''Medium'', ''High'', ''low'', ''medium'', ''high''} \<longrightarrow>
      setRange t rng s = Some (Inl (AssertionError ''Range not recognised''), s))"
proof (intro conjI impI)
  assume ok: "rng \<in> {''Low'', ''Medium'', ''High''}"
  let ?c = "''R'' @ (if rng = ''Low'' then ''0'' else if rng = ''Medium'' then ''1'' else ''2'')"
  have eq: "setRange t rng s = pbind (sendCommand t ?c True) (\<lambda>_. pret ()) s"
    using ok by (auto simp: setRange_def str_int_def dec_digits.simps digit_char_def)
  obtain res s' where sc: "sendCommand t ?c True s = Some (res, s')"
    using sendCommand_total by blast
  from sendCommand_sent[OF sc] sc have
    "\<exists>res' s''. pbind (sendCommand t ?c True) (\<lambda>_. pret ()) s = Some (res', s'') \<and> sent s'' = sent s @ [?c]"
    by (cases res) (auto simp: pbind_def)
  with eq show "\<exists>res s'. setRange t rng s = Some (res, s') \<and> sent s' = sent s @ [?c]"
    by simp
next
  assume "rng \<notin> {''Low'', ''Medium'', ''High'', ''low'', ''medium'', ''high''}"
  then show "setRange t rng s = Some (Inl (AssertionError ''Range not recognised''), s)"
    by (simp add: setRange_def praise_def)
qed

text \<open>Low sends \<^verbatim>\<open>R0\<close>, High sends \<^verbatim>\<open>R2\<close>, Purple is refused and nothing is sent.\<close>

theorem setRange_exact_names_witness:
  "''Low'' \<in> {''Low'', ''Medium'', ''High''}
   \<and> setRange scripted ''Low'' (start [''R0'']) =
       Some (Inr (), \<lparr>dev = [], exch = [Query ''R0'' (Some ''R0'')], printed = [], slept = [],
                       closed = False\<rparr>)
   \<and> setRange scripted ''High'' (start [''R2'']) =
       Some (Inr (), \<lparr>dev = [], exch = [Query ''R2'' (Some ''R2'')], printed = [], slept = [],
                       closed = False\<rparr>)
   \<and> ''Purple'' \<notin> {''Low'', ''Medium'', ''High'', ''low'', ''medium'', ''high''}
   \<and> setRange scripted ''Purple'' (start [''R0'']) =
       Some (Inl (AssertionError ''Range not recognised''), start [''R0''])"
  using setRange_exact_names[of "''Low''" scripted "start [''R0'']"]
        setRange_exact_names[of "''Purple''" scripted "start [''R0'']"]
  by (simp add: setRange_def run_defs str_int_def dec_digits.simps digit_char_def)

text \<open>The name in capitals is one of the letter cases of Low; it is refused.\<close>

theorem setRange_upper_case_counterexample:
  "setRange scripted ''LOW'' (start [''R0'']) =
     Some (Inl (AssertionError ''Range not recognised''),
           \<lparr>dev = [''R0''], exch = [], printed = [], slept = [], closed = False\<rparr>)"
  by (simp add: setRange_def run_defs)


subsection \<open>C8: closing the session\<close>

text \<open>
  C8 says that \<^verbatim>\<open>close\<close> releases the serial link on every path, also when sending
  \<^verbatim>\<open>T1\<close> fails.  The method is two statements with nothing to catch an exception:
  when the query for \<^verbatim>\<open>T1\<close> is answered (by whatever reply) the link is closed after
  it; when the query raises, the error goes to the caller and the link is left as it
  was.  In both cases \<^verbatim>\<open>T1\<close> is the one command sent.
\<close>

theorem close_releases_after_reply:
  "(serial_query t (dev s) ''T1'' = (Some reply, d') \<longrightarrow>
      (\<exists>s'. close t s = Some (Inr (), s') \<and> closed s' \<and> sent s' = sent s @ [''T1'']))
   \<and> (serial_query t (dev s) ''T1'' = (None, d') \<longrightarrow>
      (\<exists>s'. close t s = Some (Inl TransportError, s') \<and> closed s' = closed s
            \<and> sent s' = sent s @ [''T1'']))"
  by (simp add: close_def serialClose_def pbind_def sendCommand_def sent_def)

theorem close_releases_after_reply_witness:
  "serial_query scripted (dev (start [''T1''])) ''T1'' = (Some ''T1'', [])
   \<and> close scripted (start [''T1'']) =
       Some (Inr (), \<lparr>dev = [], exch = [Query ''T1'' (Some ''T1'')], printed = [], slept = [],
                       closed = True\<rparr>)
   \<and> serial_query scripted (dev (start [])) ''T1'' = (None, [])"
  using close_releases_after_reply[of scripted "start [''T1'']" "''T1''" "[]"]
        close_releases_after_reply[of scripted "start []" "''T1''" "[]"]
  by (simp add: close_def serialClose_def run_defs)

text \<open>An instrument that does not answer: the error is returned and the link is not closed.\<close>

theorem close_transport_error_counterexample:
  "close scripted (start []) =
     Some (Inl TransportError,
           \<lparr>dev = [], exch = [Query ''T1'' None], printed = [], slept = [], closed = False\<rparr>)"
  by (simp add: close_def serialClose_def run_defs)


subsection \<open>C7: where \<^verbatim>\<open>setIntegrationTime\<close> leaves the cursor\<close>

text \<open>
  C7 says that \<^verbatim>\<open>setIntegrationTime\<close> takes the cursor back to the root when it is
  done, as the other methods that enter a menu do.  It does not: on an instrument that
  is at the root, echoes the commands and reads back the new value, the method ends
  with the read of the value; after the position query at its start no position is
  asked and no move back is made.  \<^verbatim>\<open>getIntegrationTime\<close>, which enters the same
  menu, ends with the root-seeking procedure.
\<close>

theorem setIntegrationTime_leaves_cursor:
  "setIntegrationTime scripted (PyInt 10) (start [''00'', ''E'', ''E'', ''0010'', ''E'', ''10'']) =
     Some (Inr (), \<lparr>dev = [],
                     exch = [Query ''?W'' (Some ''00''), Query ''E'' (Some ''E''),
                             Query ''E'' (Some ''E''), Query ''0010'' (Some ''0010''),
                             Query ''E'' (Some ''E''), Query ''V'' (Some ''10'')],
                     printed = [], slept = [], closed = False\<rparr>)
   \<and> getIntegrationTime scripted True (start [''00'', ''E'', ''E'', ''10'', ''00'']) =
     Some (Inr 10, \<lparr>dev = [],
                     exch = [Query ''?W'' (Some ''00''), Query ''E'' (Some ''E''),
                             Query ''E'' (Some ''E''), Query ''V'' (Some ''10''),
                             Query ''?W'' (Some ''00'')],
                     printed = [], slept = [], closed = False\<rparr>)"
  by (simp add: setIntegrationTime_def getIntegrationTime_def validIntegrationTime_def run_defs
        zfill_def str_pyval_def str_int_def dec_digits.simps digit_char_def
        py_int_def int_strip_def int_isspace_def dec_value_def digit_val_def numeral_2_eq_2)


subsection \<open>C10: the guard at the start of \<^verbatim>\<open>integrate\<close>\<close>

text \<open>
  C10: the guard of \<^verbatim>\<open>integrate\<close> compares the first character of the reported
  position, a string of one character, with the string \<^verbatim>\<open>00\<close> of two.  For every
  position that is not empty they differ, so \<^verbatim>\<open>integrate\<close> goes on with the
  root-seeking procedure, also when the position reported is the root.
\<close>

theorem integrate_always_seeks_root:
  assumes "getPosition t s = Some (Inr position, s1)" and "position \<noteq> []"
  shows "py_char_at position 0 = Inr [hd position] \<and> [hd position] \<noteq> ''00''
         \<and> integrate t py_float s =
             pbind (goToSetupPosition t) (\<lambda>_. integrateFromSetup t py_float) s1"
proof -
  have c: "py_char_at position 0 = Inr [hd position]"
    using assms(2) by (simp add: py_char_at_simps)
  have "integrate t py_float s =
          pbind (plift (py_char_at position 0)) (\<lambda>first.
            pbind (if first \<noteq> ''00'' then goToSetupPosition t else pret ()) (\<lambda>_.
              integrateFromSetup t py_float)) s1"
    unfolding integrate_def using assms(1) by (rule pbind_after)
  also have "\<dots> = pbind (goToSetupPosition t) (\<lambda>_. integrateFromSetup t py_float) s1"
    by (simp add: c)
  finally show ?thesis using c by simp
qed

text \<open>
  An instrument at the root: the position is asked once by the guard and once more by
  the root-seeking procedure, before the integration time is read.
\<close>

theorem integrate_always_seeks_root_witness:
  "getPosition scripted
     (start [''00'', ''00'', ''00'', ''E'', ''E'', ''10'', ''00'', ''I'', ''RDY'', ''10s 1.5E-09 C'']) =
     Some (Inr ''00'',
           \<lparr>dev = [''00'', ''00'', ''E'', ''E'', ''10'', ''00'', ''I'', ''RDY'', ''10s 1.5E-09 C''],
              exch = [Query ''?W'' (Some ''00'')], printed = [], slept = [], closed = False\<rparr>)
   \<and> ''00'' \<noteq> []
   \<and> integrate scripted Inr
       (start [''00'', ''00'', ''00'', ''E'', ''E'', ''10'', ''00'', ''I'', ''RDY'', ''10s 1.5E-09 C'']) =
     Some (Inr ''1.5E-09'',
           \<lparr>dev = [],
              exch = [Query ''?W'' (Some ''00''), Query ''?W'' (Some ''00''),
                      Query ''?W'' (Some ''00''), Query ''E'' (Some ''E''),
                      Query ''E'' (Some ''E''), Query ''V'' (Some ''10''),
                      Query ''?W'' (Some ''00''), Query ''I'' (Some ''I''),
                      Query ''?S'' (Some ''RDY''), Write ''V'',
                      ReadRaw (Some ''10s 1.5E-09 C'')],
              printed = [], slept = [11], closed = False\<rparr>)"
  using integrate_always_seeks_root[of scripted
          "start [''00'', ''00'', ''00'', ''E'', ''E'', ''10'', ''00'', ''I'', ''RDY'', ''10s 1.5E-09 C'']"
          "''00''" _ Inr]
  by (simp add: run_defs integrate_def integrateFromSetup_def getIntegrationTime_def
        waitWhileIntegrating.simps serialWrite_def serialReadRaw_def py_char_at_simps
        Let_def py_nth_def
        py_int_def int_strip_def int_isspace_def dec_value_def digit_val_def)


subsection \<open>C3: the flags as binary digits\<close>

text \<open>
  C3 says that \<^verbatim>\<open>getFlags\<close> gives eight binary digits for every integer the
  instrument answers, cut to eight bits where needed.  The format \<^verbatim>\<open>08b\<close> pads and
  never cuts.  For every reply that \<^verbatim>\<open>int\<close> reads as \<open>n\<close> the result is the
  binary numeral of \<open>n\<close>: binary digits only when \<open>n \<ge> 0\<close>, a minus sign followed
  by binary digits when \<open>n < 0\<close>, standing for \<open>n\<close> itself.  It has exactly eight
  characters when \<open>-128 < n < 256\<close> and more than eight otherwise.
\<close>

theorem getFlags_binary_of_reply:
  assumes "sendCommand t ''?F'' False s = Some (Inr reply, s1)"
    and "py_int reply = Inr n"
  shows "getFlags t s = Some (Inr (format_08b n), s1)
         \<and> signed_bin_value (format_08b n) = n
         \<and> (0 \<le> n \<longrightarrow> set (format_08b n) \<subseteq> {CHR ''0'', CHR ''1''})
         \<and> (n < 0 \<longrightarrow> (\<exists>ds. format_08b n = CHR ''-'' # ds \<and> set ds \<subseteq> {CHR ''0'', CHR ''1''}))
         \<and> (- 128 < n \<and> n < 256 \<longrightarrow> length (format_08b n) = 8)
         \<and> (n \<le> - 128 \<or> 256 \<le> n \<longrightarrow> 8 < length (format_08b n))"
proof -
  have run: "getFlags t s = Some (Inr (format_08b n), s1)"
    using assms by (simp add: getFlags_def pbind_def pret_def)
  show ?thesis
  proof (cases "0 \<le> n")
    case True
    from format_08b_nonneg[OF True] run True show ?thesis by auto
  next
    case False
    then have neg: "n < 0" by simp
    from format_08b_negative[OF neg] run neg show ?thesis by auto
  qed
qed

text \<open>
  The reply \<^verbatim>\<open>5\<close> gives \<^verbatim>\<open>00000101\<close> and \<^verbatim>\<open>-5\<close> gives \<^verbatim>\<open>-0000101\<close>; the
  replies \<^verbatim>\<open>300\<close> and \<^verbatim>\<open>-200\<close> give nine characters.
\<close>

theorem getFlags_binary_of_reply_witness:
  "sendCommand scripted ''?F'' False (start [''5'']) =
     Some (Inr ''5'', \<lparr>dev = [], exch = [Query ''?F'' (Some ''5'')], printed = [], slept = [],
                       closed = False\<rparr>)
   \<and> py_int ''5'' = Inr 5
   \<and> getFlags scripted (start [''5'']) =
     Some (Inr ''00000101'', \<lparr>dev = [], exch = [Query ''?F'' (Some ''5'')], printed = [],
                              slept = [], closed = False\<rparr>)
   \<and> py_int ''300'' = Inr 300
   \<and> getFlags scripted (start [''300'']) =
     Some (Inr ''100101100'', \<lparr>dev = [], exch = [Query ''?F'' (Some ''300'')], printed = [],
                               slept = [], closed = False\<rparr>)
   \<and> py_int ''-5'' = Inr (- 5)
   \<and> getFlags scripted (start [''-5'']) =
     Some (Inr ''-0000101'', \<lparr>dev = [], exch = [Query ''?F'' (Some ''-5'')], printed = [],
                              slept = [], closed = False\<rparr>)
   \<and> py_int ''-200'' = Inr (- 200)
   \<and> getFlags scripted (start [''-200'']) =
     Some (Inr ''-11001000'', \<lparr>dev = [], exch = [Query ''?F'' (Some ''-200'')], printed = [],
                               slept = [], closed = False\<rparr>)"
  using getFlags_binary_of_reply[of scripted "start [''5'']" "''5''" _ 5]
        getFlags_binary_of_reply[of scripted "start [''300'']" "''300''" _ 300]
        getFlags_binary_of_reply[of scripted "start [''-5'']" "''-5''" _ "- 5"]
        getFlags_binary_of_reply[of scripted "start [''-200'']" "''-200''" _ "- 200"]
  by (simp add: run_defs flags_defs)

text \<open>The reply \<^verbatim>\<open>256\<close> gives nine characters, not the eight low bits.\<close>

theorem getFlags_no_truncation_counterexample:
  "getFlags scripted (start [''256'']) =
     Some (Inr ''100000000'', \<lparr>dev = [], exch = [Query ''?F'' (Some ''256'')], printed = [],
                               slept = [], closed = False\<rparr>)"
  by (simp add: run_defs flags_defs)


subsection \<open>C2: the number and the direction of the voltage steps\<close>

text \<open>
  C2: \<^verbatim>\<open>setVoltage\<close> is called with the target \<open>v2\<close>, the instrument reads back
  the voltage \<open>v1\<close> (the result of \<^verbatim>\<open>getVoltage(False)\<close>, leaving the session
  \<open>s1\<close>), both in the list of voltages, and the link answers the commands \<^verbatim>\<open>U\<close>,
  \<^verbatim>\<open>D\<close> and \<^verbatim>\<open>V\<close>.  Then the stepping is carried out and returns: it adds as
  many stepping commands as the positions of \<open>v1\<close> and \<open>v2\<close> in the list are
  apart, all \<^verbatim>\<open>U\<close> when \<open>v2\<close> comes later in the list and all \<^verbatim>\<open>D\<close>
  otherwise (none when they are the same).  The next exchange is the read \<^verbatim>\<open>V\<close>, and
  the call goes on from there with the check of the reply against \<open>v2\<close>
  (\<open>checkVoltage\<close>); whatever way the call ends, its exchanges begin with those of
  \<open>s1\<close>, the steps and that read.
\<close>

theorem setVoltage_steps_by_index:
  assumes "v1 \<in> set listOfVoltages" and "v2 \<in> set listOfVoltages"
    and "getVoltage t False s = Some (Inr v1, s1)"
    and "\<forall>d c. c \<in> {''U'', ''D'', ''V''} \<longrightarrow> fst (serial_query t d c) \<noteq> None"
  shows "\<exists>i1 i2 steps s2 reply s3.
           index_of listOfVoltages v1 = Inr i1 \<and> index_of listOfVoltages v2 = Inr i2
           \<and> stepVoltage t (int i2 - int i1) s1 = Some (Inr (), s2)
           \<and> exch s2 = exch s1 @ steps
           \<and> concat (map command_of steps) =
               replicate (nat \<bar>int i2 - int i1\<bar>) (if i1 < i2 then ''U'' else ''D'')
           \<and> sendCommand t ''V'' False s2 = Some (Inr reply, s3)
           \<and> exch s3 = exch s1 @ steps @ [Query ''V'' (Some reply)]
           \<and> setVoltage t v2 s = checkVoltage t v2 reply s3
           \<and> (\<forall>res s'. setVoltage t v2 s = Some (res, s') \<longrightarrow>
                 (\<exists>rest. exch s' = exch s1 @ steps @ Query ''V'' (Some reply) # rest))"
proof -
  from index_of_mem[OF assms(1)] obtain i1 where i1: "index_of listOfVoltages v1 = Inr i1" by blast
  from index_of_mem[OF assms(2)] obtain i2 where i2: "index_of listOfVoltages v2 = Inr i2" by blast
  let ?move = "int i2 - int i1"
  have call: "setVoltage t v2 s = pbind (stepVoltage t ?move) (\<lambda>_. verifyVoltage t v2) s1"
    using assms(2) i1 i2
    by (simp add: setVoltage_def pbind_after[where m = "getVoltage t False" and s = s, OF assms(3)]
          Let_def)
  from assms(4) have au: "\<forall>d. fst (serial_query t d ''U'') \<noteq> None"
    and ad: "\<forall>d. fst (serial_query t d ''D'') \<noteq> None"
    and av: "\<forall>d. fst (serial_query t d ''V'') \<noteq> None" by simp_all
  from stepVoltage_answers[OF au ad] obtain s2 where
    st: "stepVoltage t ?move s1 = Some (Inr (), s2)" by blast
  from stepVoltage_effect[OF st] obtain steps where
    steps: "exch s2 = exch s1 @ steps"
           "concat (map command_of steps) =
              replicate (nat \<bar>?move\<bar>) (if 0 < ?move then ''U'' else ''D'')"
    by blast
  from av obtain reply s3 where v: "sendCommand t ''V'' False s2 = Some (Inr reply, s3)"
    using sendCommand_answers[of t s2 "''V''" False] by blast
  from sendCommand_effect[OF v] steps(1) have
    e3: "exch s3 = exch s1 @ steps @ [Query ''V'' (Some reply)]" by simp
  have "pbind (stepVoltage t ?move) (\<lambda>_. verifyVoltage t v2) s1 = verifyVoltage t v2 s2"
    using st by (rule pbind_after)
  also have "\<dots> = checkVoltage t v2 reply s3"
    unfolding verifyVoltage_def using v by (rule pbind_after)
  finally have tail: "setVoltage t v2 s = checkVoltage t v2 reply s3"
    using call by simp
  have grows: "\<exists>rest. exch s' = exch s1 @ steps @ Query ''V'' (Some reply) # rest"
    if "setVoltage t v2 s = Some (res, s')" for res s'
  proof -
    from that tail have "checkVoltage t v2 reply s3 = Some (res, s')" by simp
    from checkVoltage_grows[OF this] e3 show ?thesis by auto
  qed
  have dir: "(0 < ?move) = (i1 < i2)" by auto
  from i1 i2 st steps v e3 tail grows show ?thesis
    unfolding dir
    by (intro exI[of _ i1] exI[of _ i2] exI[of _ steps] exI[of _ s2] exI[of _ reply]
          exI[of _ s3]) blast
qed

text \<open>
  From 100 (position 2) to 300 (position 6): four \<^verbatim>\<open>U\<close>, then \<^verbatim>\<open>V\<close> answered
  \<^verbatim>\<open>300 V\<close>.  From 300 to 100: four \<^verbatim>\<open>D\<close>.
\<close>

theorem setVoltage_steps_by_index_witness:
  "100 \<in> set listOfVoltages \<and> 300 \<in> set listOfVoltages
   \<and> index_of listOfVoltages 100 = Inr 2 \<and> index_of listOfVoltages 300 = Inr 6
   \<and> getVoltage scriptedThenEcho False
       (start [''00'', ''D'', ''E'', ''D'', ''E'', ''100 V'', ''U'', ''U'', ''U'',
           ''U'', ''300 V'', ''E'', ''00'']) =
     Some (Inr 100,
       \<lparr>dev = [''U'', ''U'', ''U'', ''U'', ''300 V'', ''E'', ''00''],
        exch = [Query ''?W'' (Some ''00''), Query ''D'' (Some ''D''),
                Query ''E'' (Some ''E''), Query ''D'' (Some ''D''),
                Query ''E'' (Some ''E''), Query ''V'' (Some ''100 V'')],
        printed = [], slept = [], closed = False\<rparr>)
   \<and> setVoltage scriptedThenEcho 300
       (start [''00'', ''D'', ''E'', ''D'', ''E'', ''100 V'', ''U'', ''U'', ''U'',
           ''U'', ''300 V'', ''E'', ''00'']) =
     Some (Inr (),
       \<lparr>dev = [],
        exch = [Query ''?W'' (Some ''00''), Query ''D'' (Some ''D''),
                Query ''E'' (Some ''E''), Query ''D'' (Some ''D''),
                Query ''E'' (Some ''E''), Query ''V'' (Some ''100 V''),
                Query ''U'' (Some ''U''), Query ''U'' (Some ''U''),
                Query ''U'' (Some ''U''), Query ''U'' (Some ''U''),
                Query ''V'' (Some ''300 V''), Query ''E'' (Some ''E''),
                Query ''?W'' (Some ''00'')],
        printed = [], slept = [], closed = False\<rparr>)
   \<and> getVoltage scriptedThenEcho False
       (start [''00'', ''D'', ''E'', ''D'', ''E'', ''300 V'', ''D'', ''D'', ''D'',
           ''D'', ''100 V'', ''E'', ''00'']) =
     Some (Inr 300,
       \<lparr>dev = [''D'', ''D'', ''D'', ''D'', ''100 V'', ''E'', ''00''],
        exch = [Query ''?W'' (Some ''00''), Query ''D'' (Some ''D''),
                Query ''E'' (Some ''E''), Query ''D'' (Some ''D''),
                Query ''E'' (Some ''E''), Query ''V'' (Some ''300 V'')],
        printed = [], slept = [], closed = False\<rparr>)
   \<and> setVoltage scriptedThenEcho 100
       (start [''00'', ''D'', ''E'', ''D'', ''E'', ''300 V'', ''D'', ''D'', ''D'',
           ''D'', ''100 V'', ''E'', ''00'']) =
     Some (Inr (),
       \<lparr>dev = [],
        exch = [Query ''?W'' (Some ''00''), Query ''D'' (Some ''D''),
                Query ''E'' (Some ''E''), Query ''D'' (Some ''D''),
                Query ''E'' (Some ''E''), Query ''V'' (Some ''300 V''),
                Query ''D'' (Some ''D''), Query ''D'' (Some ''D''),
                Query ''D'' (Some ''D''), Query ''D'' (Some ''D''),
                Query ''V'' (Some ''100 V''), Query ''E'' (Some ''E''),
                Query ''?W'' (Some ''00'')],
        printed = [], slept = [], closed = False\<rparr>)"
proof -
  have low: "100 \<in> set listOfVoltages" and high: "300 \<in> set listOfVoltages"
    and places: "index_of listOfVoltages 100 = Inr 2" "index_of listOfVoltages 300 = Inr 6"
    by (simp_all add: listOfVoltages_def)
  have link: "\<forall>d c. c \<in> {''U'', ''D'', ''V''} \<longrightarrow>
                fst (serial_query scriptedThenEcho d c) \<noteq> None"
    by (simp add: scriptedThenEcho_answers)
  have readUp: "getVoltage scriptedThenEcho False
       (start [''00'', ''D'', ''E'', ''D'', ''E'', ''100 V'', ''U'', ''U'', ''U'',
           ''U'', ''300 V'', ''E'', ''00'']) =
     Some (Inr 100,
       \<lparr>dev = [''U'', ''U'', ''U'', ''U'', ''300 V'', ''E'', ''00''],
        exch = [Query ''?W'' (Some ''00''), Query ''D'' (Some ''D''),
                Query ''E'' (Some ''E''), Query ''D'' (Some ''D''),
                Query ''E'' (Some ''E''), Query ''V'' (Some ''100 V'')],
        printed = [], slept = [], closed = False\<rparr>)"
    by (simp add: run_defs voltage_defs scriptedThenEcho_def)
  have setUp: "setVoltage scriptedThenEcho 300
       (start [''00'', ''D'', ''E'', ''D'', ''E'', ''100 V'', ''U'', ''U'', ''U'',
           ''U'', ''300 V'', ''E'', ''00'']) =
     Some (Inr (),
       \<lparr>dev = [],
        exch = [Query ''?W'' (Some ''00''), Query ''D'' (Some ''D''),
                Query ''E'' (Some ''E''), Query ''D'' (Some ''D''),
                Query ''E'' (Some ''E''), Query ''V'' (Some ''100 V''),
                Query ''U'' (Some ''U''), Query ''U'' (Some ''U''),
                Query ''U'' (Some ''U''), Query ''U'' (Some ''U''),
                Query ''V'' (Some ''300 V''), Query ''E'' (Some ''E''),
                Query ''?W'' (Some ''00'')],
        printed = [], slept = [], closed = False\<rparr>)"
    by (simp add: run_defs voltage_defs scriptedThenEcho_def)
  have readDown: "getVoltage scriptedThenEcho False
       (start [''00'', ''D'', ''E'', ''D'', ''E'', ''300 V'', ''D'', ''D'', ''D'',
           ''D'', ''100 V'', ''E'', ''00'']) =
     Some (Inr 300,
       \<lparr>dev = [''D'', ''D'', ''D'', ''D'', ''100 V'', ''E'', ''00''],
        exch = [Query ''?W'' (Some ''00''), Query ''D'' (Some ''D''),
                Query ''E'' (Some ''E''), Query ''D'' (Some ''D''),
                Query ''E'' (Some ''E''), Query ''V'' (Some ''300 V'')],
        printed = [], slept = [], closed = False\<rparr>)"
    by (simp add: run_defs voltage_defs scriptedThenEcho_def)
  have setDown: "setVoltage scriptedThenEcho 100
       (start [''00'', ''D'', ''E'', ''D'', ''E'', ''300 V'', ''D'', ''D'', ''D'',
           ''D'', ''100 V'', ''E'', ''00'']) =
     Some (Inr (),
       \<lparr>dev = [],
        exch = [Query ''?W'' (Some ''00''), Query ''D'' (Some ''D''),
                Query ''E'' (Some ''E''), Query ''D'' (Some ''D''),
                Query ''E'' (Some ''E''), Query ''V'' (Some ''300 V''),
                Query ''D'' (Some ''D''), Query ''D'' (Some ''D''),
                Query ''D'' (Some ''D''), Query ''D'' (Some ''D''),
                Query ''V'' (Some ''100 V''), Query ''E'' (Some ''E''),
                Query ''?W'' (Some ''00'')],
        printed = [], slept = [], closed = False\<rparr>)"
    by (simp add: run_defs voltage_defs scriptedThenEcho_def)
  note up = setVoltage_steps_by_index[OF low high readUp link]
  note down = setVoltage_steps_by_index[OF high low readDown link]
  from up down show ?thesis
    by - (intro conjI low high places readUp setUp readDown setDown)
qed


subsection \<open>C6: a voltage that does not read back\<close>

text \<open>
  C6 says that in \<^verbatim>\<open>setVoltage\<close> a first token of the read \<^verbatim>\<open>V\<close> that is not
  the voltage asked for makes the call report the error and return to the root.  That
  holds when the token reads as an integer: then the rest of the call is the report
  of the error followed by the root-seeking procedure and nothing else, so after that
  read only commands of the root-seeking procedure are sent (no \<^verbatim>\<open>E\<close>, no
  \<^verbatim>\<open>G\<close>, no second \<^verbatim>\<open>V\<close>, no \<^verbatim>\<open>D\<close>), the error is among the lines printed,
  and a normal return comes after a position query answered \<^verbatim>\<open>00\<close>.  When the reply
  has no token, or its first token does not read as an integer, the conversion raises
  before the comparison: the call ends at once with \<^verbatim>\<open>IndexError\<close> or
  \<^verbatim>\<open>ValueError\<close>, in the session left by the read, with nothing reported and no
  return to the root.
\<close>

theorem setVoltage_mismatch_aborts:
  assumes "voltage \<in> set listOfVoltages"
    and "getVoltage t False s = Some (Inr aVoltage, s1)"
    and "index_of listOfVoltages aVoltage = Inr i1"
    and "index_of listOfVoltages voltage = Inr i2"
    and "stepVoltage t (int i2 - int i1) s1 = Some (Inr (), s2)"
    and "sendCommand t ''V'' False s2 = Some (Inr reply, s3)"
  shows "(\<forall>token readBack.
            py_nth (py_split reply) 0 = Inr token \<and> py_int token = Inr readBack
            \<and> readBack \<noteq> voltage \<longrightarrow>
              setVoltage t voltage s =
                goToSetupPosition t
                  (s3\<lparr>printed := printed s3 @
                       [''Error setting the requested voltage, operation aborted.'']\<rparr>)
              \<and> (\<forall>res s'. setVoltage t voltage s = Some (res, s') \<longrightarrow>
                    (\<exists>nav. exch s' = exch s3 @ nav
                       \<and> set (concat (map command_of nav)) \<subseteq> {''?W'', ''C'', ''M0'', ''U''}
                       \<and> ''Error setting the requested voltage, operation aborted.''
                            \<in> set (printed s')
                       \<and> (res = Inr () \<longrightarrow>
                            nav \<noteq> [] \<and> last nav = Query ''?W'' (Some ''00'')))))
         \<and> (py_split reply = [] \<longrightarrow> setVoltage t voltage s = Some (Inl IndexError, s3))
         \<and> (\<forall>token e.
               py_nth (py_split reply) 0 = Inr token \<and> py_int token = Inl e \<longrightarrow>
                 e = ValueError \<and> setVoltage t voltage s = Some (Inl ValueError, s3))"
proof -
  let ?msg = "''Error setting the requested voltage, operation aborted.''"
  let ?s4 = "s3\<lparr>printed := printed s3 @ [?msg]\<rparr>"
  have "setVoltage t voltage s =
          pbind (stepVoltage t (int i2 - int i1)) (\<lambda>_. verifyVoltage t voltage) s1"
    using assms(1,3,4)
    by (simp add: setVoltage_def pbind_after[where m = "getVoltage t False" and s = s, OF assms(2)]
          Let_def)
  also have "\<dots> = verifyVoltage t voltage s2"
    using assms(5) by (rule pbind_after)
  also have "\<dots> = checkVoltage t voltage reply s3"
    unfolding verifyVoltage_def using assms(6) by (rule pbind_after)
  finally have tail: "setVoltage t voltage s = checkVoltage t voltage reply s3" .
  have mismatch:
    "setVoltage t voltage s = goToSetupPosition t ?s4
     \<and> (\<forall>res s'. setVoltage t voltage s = Some (res, s') \<longrightarrow>
           (\<exists>nav. exch s' = exch s3 @ nav
              \<and> set (concat (map command_of nav)) \<subseteq> {''?W'', ''C'', ''M0'', ''U''}
              \<and> ?msg \<in> set (printed s')
              \<and> (res = Inr () \<longrightarrow> nav \<noteq> [] \<and> last nav = Query ''?W'' (Some ''00''))))"
    if tok: "py_nth (py_split reply) 0 = Inr token" and rb: "py_int token = Inr readBack"
      and ne: "readBack \<noteq> voltage" for token readBack
  proof -
    have run: "setVoltage t voltage s = goToSetupPosition t ?s4"
      unfolding tail using tok rb ne
      by (simp add: checkVoltage_def) (simp add: pbind_def pprint_def)
    have "\<exists>nav. exch s' = exch s3 @ nav
            \<and> set (concat (map command_of nav)) \<subseteq> {''?W'', ''C'', ''M0'', ''U''}
            \<and> ?msg \<in> set (printed s')
            \<and> (res = Inr () \<longrightarrow> nav \<noteq> [] \<and> last nav = Query ''?W'' (Some ''00''))"
      if "setVoltage t voltage s = Some (res, s')" for res s'
    proof -
      from that run have "goToSetupPosition t ?s4 = Some (res, s')" by simp
      from goToSetupPosition_navigation[OF this] obtain nav where
        nav: "navigation ?s4 s' nav"
             "res = Inr () \<longrightarrow> nav \<noteq> [] \<and> last nav = Query ''?W'' (Some ''00'')" by blast
      from nav(1) have "exch s' = exch s3 @ nav"
        "set (concat (map command_of nav)) \<subseteq> {''?W'', ''C'', ''M0'', ''U''}"
        "?msg \<in> set (printed s')"
        by (auto simp: navigation_def seekCommands_def)
      with nav(2) show ?thesis by blast
    qed
    with run show ?thesis by blast
  qed
  have empty: "setVoltage t voltage s = Some (Inl IndexError, s3)" if "py_split reply = []"
    unfolding tail using that by (simp add: checkVoltage_def py_nth_first praise_def)
  have unread: "e = ValueError \<and> setVoltage t voltage s = Some (Inl ValueError, s3)"
    if "py_nth (py_split reply) 0 = Inr token" and "py_int token = Inl e" for token e
  proof -
    from that(2) have e: "e = ValueError" by (rule py_int_error)
    with that show ?thesis unfolding tail by (simp add: checkVoltage_def praise_def)
  qed
  from mismatch empty unread show ?thesis by blast
qed

text \<open>
  The instrument stops at 250 on the way from 100 to 300: the error is printed, and
  from the position \<^verbatim>\<open>0110\<close> the cursor is taken back with two \<^verbatim>\<open>C\<close> and one
  \<^verbatim>\<open>U\<close>.  The instrument answers \<^verbatim>\<open>ERR\<close>: the call raises.
\<close>

theorem setVoltage_mismatch_aborts_witness:
  "300 \<in> set listOfVoltages
   \<and> index_of listOfVoltages 100 = Inr 2 \<and> index_of listOfVoltages 300 = Inr 6
   \<and> getVoltage scripted False
       (start [''00'', ''D'', ''E'', ''D'', ''E'', ''100 V'', ''U'', ''U'', ''U'',
           ''U'', ''250 V'', ''0110'', ''C'', ''011'', ''C'', ''01'', ''U'',
           ''00'']) =
     Some (Inr 100,
       \<lparr>dev = [''U'', ''U'', ''U'', ''U'', ''250 V'', ''0110'', ''C'', ''011'',
               ''C'', ''01'', ''U'', ''00''],
        exch = [Query ''?W'' (Some ''00''), Query ''D'' (Some ''D''),
                Query ''E'' (Some ''E''), Query ''D'' (Some ''D''),
                Query ''E'' (Some ''E''), Query ''V'' (Some ''100 V'')],
        printed = [], slept = [], closed = False\<rparr>)
   \<and> stepVoltage scripted (int 6 - int 2)
       \<lparr>dev = [''U'', ''U'', ''U'', ''U'', ''250 V'', ''0110'', ''C'', ''011'',
               ''C'', ''01'', ''U'', ''00''],
        exch = [Query ''?W'' (Some ''00''), Query ''D'' (Some ''D''),
                Query ''E'' (Some ''E''), Query ''D'' (Some ''D''),
                Query ''E'' (Some ''E''), Query ''V'' (Some ''100 V'')],
        printed = [], slept = [], closed = False\<rparr> =
     Some (Inr (),
       \<lparr>dev = [''250 V'', ''0110'', ''C'', ''011'', ''C'', ''01'', ''U'', ''00''],
        exch = [Query ''?W'' (Some ''00''), Query ''D'' (Some ''D''),
                Query ''E'' (Some ''E''), Query ''D'' (Some ''D''),
                Query ''E'' (Some ''E''), Query ''V'' (Some ''100 V''),
                Query ''U'' (Some ''U''), Query ''U'' (Some ''U''),
                Query ''U'' (Some ''U''), Query ''U'' (Some ''U'')],
        printed = [], slept = [], closed = False\<rparr>)
   \<and> sendCommand scripted ''V'' False
       \<lparr>dev = [''250 V'', ''0110'', ''C'', ''011'', ''C'', ''01'', ''U'', ''00''],
        exch = [Query ''?W'' (Some ''00''), Query ''D'' (Some ''D''),
                Query ''E'' (Some ''E''), Query ''D'' (Some ''D''),
                Query ''E'' (Some ''E''), Query ''V'' (Some ''100 V''),
                Query ''U'' (Some ''U''), Query ''U'' (Some ''U''),
                Query ''U'' (Some ''U''), Query ''U'' (Some ''U'')],
        printed = [], slept = [], closed = False\<rparr> =
     Some (Inr ''250 V'',
       \<lparr>dev = [''0110'', ''C'', ''011'', ''C'', ''01'', ''U'', ''00''],
        exch = [Query ''?W'' (Some ''00''), Query ''D'' (Some ''D''),
                Query ''E'' (Some ''E''), Query ''D'' (Some ''D''),
                Query ''E'' (Some ''E''), Query ''V'' (Some ''100 V''),
                Query ''U'' (Some ''U''), Query ''U'' (Some ''U''),
                Query ''U'' (Some ''U''), Query ''U'' (Some ''U''),
                Query ''V'' (Some ''250 V'')],
        printed = [], slept = [], closed = False\<rparr>)
   \<and> py_nth (py_split ''250 V'') 0 = Inr ''250'' \<and> py_int ''250'' = Inr 250
   \<and> (250 :: int) \<noteq> 300
   \<and> setVoltage scripted 300
       (start [''00'', ''D'', ''E'', ''D'', ''E'', ''100 V'', ''U'', ''U'', ''U'',
           ''U'', ''250 V'', ''0110'', ''C'', ''011'', ''C'', ''01'', ''U'',
           ''00'']) =
     Some (Inr (),
       \<lparr>dev = [],
        exch = [Query ''?W'' (Some ''00''), Query ''D'' (Some ''D''),
                Query ''E'' (Some ''E''), Query ''D'' (Some ''D''),
                Query ''E'' (Some ''E''), Query ''V'' (Some ''100 V''),
                Query ''U'' (Some ''U''), Query ''U'' (Some ''U''),
                Query ''U'' (Some ''U''), Query ''U'' (Some ''U''),
                Query ''V'' (Some ''250 V''), Query ''?W'' (Some ''0110''),
                Query ''C'' (Some ''C''), Query ''?W'' (Some ''011''),
                Query ''C'' (Some ''C''), Query ''?W'' (Some ''01''),
                Query ''U'' (Some ''U''), Query ''?W'' (Some ''00'')],
        printed = [''Error setting the requested voltage, operation aborted.''], slept = [], closed = False\<rparr>)
   \<and> sendCommand scripted ''V'' False
       \<lparr>dev = [''ERR'', ''00''],
        exch = [Query ''?W'' (Some ''00''), Query ''D'' (Some ''D''),
                Query ''E'' (Some ''E''), Query ''D'' (Some ''D''),
                Query ''E'' (Some ''E''), Query ''V'' (Some ''100 V''),
                Query ''U'' (Some ''U''), Query ''U'' (Some ''U''),
                Query ''U'' (Some ''U''), Query ''U'' (Some ''U'')],
        printed = [], slept = [], closed = False\<rparr> =
     Some (Inr ''ERR'',
       \<lparr>dev = [''00''],
        exch = [Query ''?W'' (Some ''00''), Query ''D'' (Some ''D''),
                Query ''E'' (Some ''E''), Query ''D'' (Some ''D''),
                Query ''E'' (Some ''E''), Query ''V'' (Some ''100 V''),
                Query ''U'' (Some ''U''), Query ''U'' (Some ''U''),
                Query ''U'' (Some ''U''), Query ''U'' (Some ''U''),
                Query ''V'' (Some ''ERR'')],
        printed = [], slept = [], closed = False\<rparr>)
   \<and> py_nth (py_split ''ERR'') 0 = Inr ''ERR'' \<and> py_int ''ERR'' = Inl ValueError
   \<and> setVoltage scripted 300
       (start [''00'', ''D'', ''E'', ''D'', ''E'', ''100 V'', ''U'', ''U'', ''U'',
           ''U'', ''ERR'', ''00'']) =
     Some (Inl ValueError,
       \<lparr>dev = [''00''],
        exch = [Query ''?W'' (Some ''00''), Query ''D'' (Some ''D''),
                Query ''E'' (Some ''E''), Query ''D'' (Some ''D''),
                Query ''E'' (Some ''E''), Query ''V'' (Some ''100 V''),
                Query ''U'' (Some ''U''), Query ''U'' (Some ''U''),
                Query ''U'' (Some ''U''), Query ''U'' (Some ''U''),
                Query ''V'' (Some ''ERR'')],
        printed = [], slept = [], closed = False\<rparr>)"
proof -
  have high: "300 \<in> set listOfVoltages"
    and places: "index_of listOfVoltages 100 = Inr 2" "index_of listOfVoltages 300 = Inr 6"
    by (simp_all add: listOfVoltages_def)
  have tokens: "py_nth (py_split ''250 V'') 0 = Inr ''250''" "py_int ''250'' = Inr 250"
    "(250 :: int) \<noteq> 300"
    "py_nth (py_split ''ERR'') 0 = Inr ''ERR''" "py_int ''ERR'' = Inl ValueError"
    by (simp_all add: voltage_defs)
  have readA: "getVoltage scripted False
       (start [''00'', ''D'', ''E'', ''D'', ''E'', ''100 V'', ''U'', ''U'', ''U'',
           ''U'', ''250 V'', ''0110'', ''C'', ''011'', ''C'', ''01'', ''U'',
           ''00'']) =
     Some (Inr 100,
       \<lparr>dev = [''U'', ''U'', ''U'', ''U'', ''250 V'', ''0110'', ''C'', ''011'',
               ''C'', ''01'', ''U'', ''00''],
        exch = [Query ''?W'' (Some ''00''), Query ''D'' (Some ''D''),
                Query ''E'' (Some ''E''), Query ''D'' (Some ''D''),
                Query ''E'' (Some ''E''), Query ''V'' (Some ''100 V'')],
        printed = [], slept = [], closed = False\<rparr>)"
    by (simp add: run_defs voltage_defs)
  have stepA: "stepVoltage scripted (int 6 - int 2)
       \<lparr>dev = [''U'', ''U'', ''U'', ''U'', ''250 V'', ''0110'', ''C'', ''011'',
               ''C'', ''01'', ''U'', ''00''],
        exch = [Query ''?W'' (Some ''00''), Query ''D'' (Some ''D''),
                Query ''E'' (Some ''E''), Query ''D'' (Some ''D''),
                Query ''E'' (Some ''E''), Query ''V'' (Some ''100 V'')],
        printed = [], slept = [], closed = False\<rparr> =
     Some (Inr (),
       \<lparr>dev = [''250 V'', ''0110'', ''C'', ''011'', ''C'', ''01'', ''U'', ''00''],
        exch = [Query ''?W'' (Some ''00''), Query ''D'' (Some ''D''),
                Query ''E'' (Some ''E''), Query ''D'' (Some ''D''),
                Query ''E'' (Some ''E''), Query ''V'' (Some ''100 V''),
                Query ''U'' (Some ''U''), Query ''U'' (Some ''U''),
                Query ''U'' (Some ''U''), Query ''U'' (Some ''U'')],
        printed = [], slept = [], closed = False\<rparr>)"
    by (simp add: run_defs voltage_defs)
  have askA: "sendCommand scripted ''V'' False
       \<lparr>dev = [''250 V'', ''0110'', ''C'', ''011'', ''C'', ''01'', ''U'', ''00''],
        exch = [Query ''?W'' (Some ''00''), Query ''D'' (Some ''D''),
                Query ''E'' (Some ''E''), Query ''D'' (Some ''D''),
                Query ''E'' (Some ''E''), Query ''V'' (Some ''100 V''),
                Query ''U'' (Some ''U''), Query ''U'' (Some ''U''),
                Query ''U'' (Some ''U''), Query ''U'' (Some ''U'')],
        printed = [], slept = [], closed = False\<rparr> =
     Some (Inr ''250 V'',
       \<lparr>dev = [''0110'', ''C'', ''011'', ''C'', ''01'', ''U'', ''00''],
        exch = [Query ''?W'' (Some ''00''), Query ''D'' (Some ''D''),
                Query ''E'' (Some ''E''), Query ''D'' (Some ''D''),
                Query ''E'' (Some ''E''), Query ''V'' (Some ''100 V''),
                Query ''U'' (Some ''U''), Query ''U'' (Some ''U''),
                Query ''U'' (Some ''U''), Query ''U'' (Some ''U''),
                Query ''V'' (Some ''250 V'')],
        printed = [], slept = [], closed = False\<rparr>)"
    by (simp add: run_defs)
  have setA: "setVoltage scripted 300
       (start [''00'', ''D'', ''E'', ''D'', ''E'', ''100 V'', ''U'', ''U'', ''U'',
           ''U'', ''250 V'', ''0110'', ''C'', ''011'', ''C'', ''01'', ''U'',
           ''00'']) =
     Some (Inr (),
       \<lparr>dev = [],
        exch = [Query ''?W'' (Some ''00''), Query ''D'' (Some ''D''),
                Query ''E'' (Some ''E''), Query ''D'' (Some ''D''),
                Query ''E'' (Some ''E''), Query ''V'' (Some ''100 V''),
                Query ''U'' (Some ''U''), Query ''U'' (Some ''U''),
                Query ''U'' (Some ''U''), Query ''U'' (Some ''U''),
                Query ''V'' (Some ''250 V''), Query ''?W'' (Some ''0110''),
                Query ''C'' (Some ''C''), Query ''?W'' (Some ''011''),
                Query ''C'' (Some ''C''), Query ''?W'' (Some ''01''),
                Query ''U'' (Some ''U''), Query ''?W'' (Some ''00'')],
        printed = [''Error setting the requested voltage, operation aborted.''], slept = [], closed = False\<rparr>)"
    by (simp add: run_defs voltage_defs)
  have readB: "getVoltage scripted False
       (start [''00'', ''D'', ''E'', ''D'', ''E'', ''100 V'', ''U'', ''U'', ''U'',
           ''U'', ''ERR'', ''00'']) =
     Some (Inr 100,
       \<lparr>dev = [''U'', ''U'', ''U'', ''U'', ''ERR'', ''00''],
        exch = [Query ''?W'' (Some ''00''), Query ''D'' (Some ''D''),
                Query ''E'' (Some ''E''), Query ''D'' (Some ''D''),
                Query ''E'' (Some ''E''), Query ''V'' (Some ''100 V'')],
        printed = [], slept = [], closed = False\<rparr>)"
    by (simp add: run_defs voltage_defs)
  have stepB: "stepVoltage scripted (int 6 - int 2)
       \<lparr>dev = [''U'', ''U'', ''U'', ''U'', ''ERR'', ''00''],
        exch = [Query ''?W'' (Some ''00''), Query ''D'' (Some ''D''),
                Query ''E'' (Some ''E''), Query ''D'' (Some ''D''),
                Query ''E'' (Some ''E''), Query ''V'' (Some ''100 V'')],
        printed = [], slept = [], closed = False\<rparr> =
     Some (Inr (),
       \<lparr>dev = [''ERR'', ''00''],
        exch = [Query ''?W'' (Some ''00''), Query ''D'' (Some ''D''),
                Query ''E'' (Some ''E''), Query ''D'' (Some ''D''),
                Query ''E'' (Some ''E''), Query ''V'' (Some ''100 V''),
                Query ''U'' (Some ''U''), Query ''U'' (Some ''U''),
                Query ''U'' (Some ''U''), Query ''U'' (Some ''U'')],
        printed = [], slept = [], closed = False\<rparr>)"
    by (simp add: run_defs voltage_defs)
  have askB: "sendCommand scripted ''V'' False
       \<lparr>dev = [''ERR'', ''00''],
        exch = [Query ''?W'' (Some ''00''), Query ''D'' (Some ''D''),
                Query ''E'' (Some ''E''), Query ''D'' (Some ''D''),
                Query ''E'' (Some ''E''), Query ''V'' (Some ''100 V''),
                Query ''U'' (Some ''U''), Query ''U'' (Some ''U''),
                Query ''U'' (Some ''U''), Query ''U'' (Some ''U'')],
        printed = [], slept = [], closed = False\<rparr> =
     Some (Inr ''ERR'',
       \<lparr>dev = [''00''],
        exch = [Query ''?W'' (Some ''00''), Query ''D'' (Some ''D''),
                Query ''E'' (Some ''E''), Query ''D'' (Some ''D''),
                Query ''E'' (Some ''E''), Query ''V'' (Some ''100 V''),
                Query ''U'' (Some ''U''), Query ''U'' (Some ''U''),
                Query ''U'' (Some ''U''), Query ''U'' (Some ''U''),
                Query ''V'' (Some ''ERR'')],
        printed = [], slept = [], closed = False\<rparr>)"
    by (simp add: run_defs)
  have setB: "setVoltage scripted 300
       (start [''00'', ''D'', ''E'', ''D'', ''E'', ''100 V'', ''U'', ''U'', ''U'',
           ''U'', ''ERR'', ''00'']) =
     Some (Inl ValueError,
       \<lparr>dev = [''00''],
        exch = [Query ''?W'' (Some ''00''), Query ''D'' (Some ''D''),
                Query ''E'' (Some ''E''), Query ''D'' (Some ''D''),
                Query ''E'' (Some ''E''), Query ''V'' (Some ''100 V''),
                Query ''U'' (Some ''U''), Query ''U'' (Some ''U''),
                Query ''U'' (Some ''U''), Query ''U'' (Some ''U''),
                Query ''V'' (Some ''ERR'')],
        printed = [], slept = [], closed = False\<rparr>)"
    by (simp add: run_defs voltage_defs)
  note a = setVoltage_mismatch_aborts[OF high readA places stepA askA]
  note b = setVoltage_mismatch_aborts[OF high readB places stepB askB]
  from a b show ?thesis
    by - (intro conjI high places tokens readA stepA askA setA askB setB)
qed

text \<open>
  The first token \<^verbatim>\<open>ERR\<close> is not the voltage 300: nothing is printed, the position
  is not asked again (the reply \<^verbatim>\<open>00\<close> that was ready is never fetched), and the
  call ends with the error.
\<close>

theorem setVoltage_unreadable_reply_counterexample:
  "setVoltage scripted 300
       (start [''00'', ''D'', ''E'', ''D'', ''E'', ''100 V'', ''U'', ''U'', ''U'',
           ''U'', ''ERR'', ''00'']) =
     Some (Inl ValueError,
       \<lparr>dev = [''00''],
        exch = [Query ''?W'' (Some ''00''), Query ''D'' (Some ''D''),
                Query ''E'' (Some ''E''), Query ''D'' (Some ''D''),
                Query ''E'' (Some ''E''), Query ''V'' (Some ''100 V''),
                Query ''U'' (Some ''U''), Query ''U'' (Some ''U''),
                Query ''U'' (Some ''U''), Query ''U'' (Some ''U''),
                Query ''V'' (Some ''ERR'')],
        printed = [], slept = [], closed = False\<rparr>)"
  by (simp add: run_defs voltage_defs)

end
